theory Spec2Isabelle
  imports Complex_Main "HOL-Library.AList"
begin

section \<open>JavaScript Numbers\<close>

text \<open>
  A Number is an IEEE 754 double: a finite value (a rational that a double represents),
  an infinity or NaN. The two zeros are not told apart. Every arithmetic result is the
  exact result rounded to the nearest double, ties to the even significand; a result of
  magnitude \<open>2^1024\<close> or more after rounding is an infinity.
\<close>

datatype number = Finite rat | PosInf | NegInf | NaN

definition pow2 :: "int \<Rightarrow> rat" where
  "pow2 k = (if 0 \<le> k then 2 ^ nat k else 1 / 2 ^ nat (- k))"

text \<open>The number of binary digits of a positive integer.\<close>

function bit_length :: "int \<Rightarrow> int" where
  "bit_length n = (if n \<le> 0 then 0 else 1 + bit_length (n div 2))"
  by pat_completeness auto
termination by (relation "measure nat") auto

declare bit_length.simps [simp del]

text \<open>\<open>\<lfloor>log\<^sub>2 a\<rfloor>\<close> for a positive rational \<open>a\<close>.\<close>

definition binary_exponent :: "rat \<Rightarrow> int" where
  "binary_exponent a =
     (case quotient_of a of
        (n, d) \<Rightarrow>
          (let k = bit_length n - bit_length d
           in if pow2 k \<le> a then k else k - 1))"

definition round_half_even :: "rat \<Rightarrow> int" where
  "round_half_even x =
     (let f = \<lfloor>x\<rfloor>; r = x - of_int f
      in if r < 1 / 2 then f
         else if 1 / 2 < r then f + 1
         else if even f then f else f + 1)"

text \<open>
  The double nearest to a rational: 53 significant bits, the smallest spacing
  \<open>2^-1074\<close> in the subnormal range. It is also how a stored or written decimal is read
  as a Number.
\<close>

definition to_double :: "rat \<Rightarrow> number" where
  "to_double q =
     (if q = 0 then Finite 0
      else
        (let a = \<bar>q\<bar>;
             p = max (binary_exponent a - 52) (- 1074);
             v = of_int (round_half_even (a / pow2 p)) * pow2 p
         in if 1024 \<le> binary_exponent v then (if 0 < q then PosInf else NegInf)
            else Finite (if 0 < q then v else - v)))"

text \<open>The operators \<open>*\<close> and \<open>+\<close> on Numbers.\<close>

fun num_mul :: "number \<Rightarrow> number \<Rightarrow> number" where
  "num_mul NaN y = NaN"
| "num_mul x NaN = NaN"
| "num_mul (Finite a) (Finite b) = to_double (a * b)"
| "num_mul (Finite a) PosInf = (if a = 0 then NaN else if 0 < a then PosInf else NegInf)"
| "num_mul (Finite a) NegInf = (if a = 0 then NaN else if 0 < a then NegInf else PosInf)"
| "num_mul PosInf (Finite b) = (if b = 0 then NaN else if 0 < b then PosInf else NegInf)"
| "num_mul NegInf (Finite b) = (if b = 0 then NaN else if 0 < b then NegInf else PosInf)"
| "num_mul PosInf PosInf = PosInf"
| "num_mul PosInf NegInf = NegInf"
| "num_mul NegInf PosInf = NegInf"
| "num_mul NegInf NegInf = PosInf"

fun num_add :: "number \<Rightarrow> number \<Rightarrow> number" where
  "num_add NaN y = NaN"
| "num_add x NaN = NaN"
| "num_add (Finite a) (Finite b) = to_double (a + b)"
| "num_add (Finite a) PosInf = PosInf"
| "num_add (Finite a) NegInf = NegInf"
| "num_add PosInf (Finite b) = PosInf"
| "num_add NegInf (Finite b) = NegInf"
| "num_add PosInf PosInf = PosInf"
| "num_add PosInf NegInf = NaN"
| "num_add NegInf PosInf = NaN"
| "num_add NegInf NegInf = NegInf"

section \<open>JavaScript values\<close>

text \<open>
  Request bodies and the dynamically assigned paths of a document are JSON values. A
  missing property reads as \<open>undefined\<close>. A number is given by its decimal and read
  as the Number \<open>to_double\<close> of it.
\<close>

datatype json =
    JUndefined
  | JNull
  | JBool bool
  | JNum rat
  | JStr string
  | JArr "json list"
  | JObj "(string \<times> json) list"

type_synonym obj = "(string \<times> json) list"

text \<open>Truthiness, as \<open>!x\<close>, \<open>x || y\<close> and \<open>if (x)\<close> test it.\<close>

fun truthy :: "json \<Rightarrow> bool" where
  "truthy JUndefined = False"
| "truthy JNull = False"
| "truthy (JBool b) = b"
| "truthy (JNum n) = (to_double n \<noteq> Finite 0)"
| "truthy (JStr s) = (s \<noteq> [])"
| "truthy (JArr xs) = True"
| "truthy (JObj kvs) = True"

text \<open>\<open>typeof x\<close>.\<close>

fun typeof :: "json \<Rightarrow> string" where
  "typeof JUndefined = ''undefined''"
| "typeof JNull = ''object''"
| "typeof (JBool b) = ''boolean''"
| "typeof (JNum n) = ''number''"
| "typeof (JStr s) = ''string''"
| "typeof (JArr xs) = ''object''"
| "typeof (JObj kvs) = ''object''"

text \<open>\<open>o[k]\<close>, \<open>Object.keys(o)\<close> and \<open>o[k] = v\<close>.\<close>

definition obj_get :: "obj \<Rightarrow> string \<Rightarrow> json" where
  "obj_get ob k = (case map_of ob k of None \<Rightarrow> JUndefined | Some v \<Rightarrow> v)"

definition obj_keys :: "obj \<Rightarrow> string list" where
  "obj_keys ob = map fst ob"

definition obj_set :: "string \<Rightarrow> json \<Rightarrow> obj \<Rightarrow> obj" where
  "obj_set k v ob = AList.update k v ob"

text \<open>
  \<open>String.prototype.toLowerCase\<close> and \<open>String.prototype.trim\<close> belong to the
  JavaScript runtime (Unicode case mapping, Unicode white space and line terminators);
  the routes take them from the environment below. The two functions here are what
  they compute on strings of code units below 256, a \<open>char\<close> read as its code unit:
  the capital letters there are \<open>A\<close> to \<open>Z\<close> and U+00C0 to U+00DE without the
  multiplication sign U+00D7, each 32 below its small letter; the white space there is
  U+0009 to U+000D, the space and the no-break space U+00A0.
\<close>

definition lower_char :: "char \<Rightarrow> char" where
  "lower_char c =
     (let n = (of_char c :: nat)
      in if (65 \<le> n \<and> n \<le> 90) \<or> (192 \<le> n \<and> n \<le> 222 \<and> n \<noteq> 215)
         then char_of (n + 32) else c)"

definition latin1_toLowerCase :: "string \<Rightarrow> string" where
  "latin1_toLowerCase s = map lower_char s"

definition is_space :: "char \<Rightarrow> bool" where
  "is_space c = (let n = (of_char c :: nat) in (9 \<le> n \<and> n \<le> 13) \<or> n = 32 \<or> n = 160)"

definition latin1_trim :: "string \<Rightarrow> string" where
  "latin1_trim s = rev (dropWhile is_space (rev (dropWhile is_space s)))"

text \<open>\<open>s.split(c)\<close> for a one-character separator: never an empty array.\<close>

fun split_on :: "char \<Rightarrow> string \<Rightarrow> string list" where
  "split_on c [] = [[]]"
| "split_on c (x # xs) =
     (if x = c then [] # split_on c xs
      else (case split_on c xs of
              [] \<Rightarrow> [[x]]
            | w # ws \<Rightarrow> (x # w) # ws))"

section \<open>Documents and the store\<close>

text \<open>
  ObjectIds are opaque identifiers. A path that holds a reference is polymorphic in
  what it holds: an \<open>oid\<close> as stored, the referenced document (or \<open>null\<close>) after
  \<open>populate\<close>.
\<close>

type_synonym oid = nat

text \<open>
  A user document: its \<open>_id\<close> and its other paths (name, email, password, role,
  phone, address) by name, since \<open>PUT /profile\<close> assigns paths by name.
\<close>

record user =
  user_id :: oid
  user_fields :: obj

text \<open>
  The paths of the Product schema (server/models/Product.js) that the routes below read;
  category, old\_price, description, inStock and stockQuantity are read by none of them.
  The price is the decimal as stored; a route that reads it gets the Number
  \<open>to_double (new_price p)\<close>. The quantity of a cart entry is a whole number, read as
  the Number \<open>to_double (of_int q)\<close>.
\<close>

record product =
  product_id :: oid
  product_name :: string
  image :: string
  new_price :: rat

record 'p cart_item =
  ci_product :: 'p
  quantity :: int

text \<open>One cart per user, found by its \<open>user\<close> path.\<close>

record 'p cart =
  cart_user :: oid
  cart_items :: "'p cart_item list"

record 'p order_item =
  oi_product :: 'p
  oi_name :: string
  oi_image :: string
  oi_price :: number
  oi_quantity :: int

record 'p order =
  order_id :: oid
  order_user :: oid
  order_items :: "'p order_item list"
  totalAmount :: number
  shippingAddress :: json
  paymentMethod :: json
  paymentStatus :: json
  orderStatus :: json
  createdAt :: nat

record db =
  users :: "user list"
  products :: "product list"
  carts :: "oid cart list"
  orders :: "oid order list"

text \<open>
  What the routes call and this repository's sources do not hold: the jsonwebtoken
  library, the environment, the clock, the runtime's \<open>toLowerCase\<close> and \<open>trim\<close> on
  strings, the password comparison of the User model (\<open>Inl m\<close>: it throws an error
  with message \<open>m\<close>), and the outcome of each \<open>save()\<close> (\<open>Some m\<close>: it throws an
  error with message \<open>m\<close>, a schema validation failure or a store failure). Reads of
  the store do not fail.
\<close>

record env =
  JWT_SECRET :: "string option"
  toLowerCase :: "string \<Rightarrow> string"
  trim :: "string \<Rightarrow> string"
  jwt_sign :: "oid \<Rightarrow> string \<Rightarrow> string \<Rightarrow> string"
  jwt_verify :: "string \<Rightarrow> string \<Rightarrow> oid option"
  hash_password :: "json \<Rightarrow> json"
  comparePassword :: "user \<Rightarrow> json \<Rightarrow> string + bool"
  user_save_error :: "user \<Rightarrow> string option"
  order_save_error :: "oid order \<Rightarrow> string option"
  cart_save_error :: "oid cart \<Rightarrow> string option"
  now :: nat

text \<open>A response: \<open>res.status(n).json({ message })\<close> or \<open>res.status(n).json(x)\<close>.\<close>

datatype 'a content = Msg string | Json 'a

type_synonym 'a response = "nat \<times> 'a content"

definition new_oid :: "oid list \<Rightarrow> oid" where
  "new_oid ids = Suc (fold max ids 0)"

definition user_findById :: "user list \<Rightarrow> oid \<Rightarrow> user option" where
  "user_findById us i = find (\<lambda>u. user_id u = i) us"

definition user_findOne_email :: "user list \<Rightarrow> string \<Rightarrow> user option" where
  "user_findOne_email us e = find (\<lambda>u. obj_get (user_fields u) ''email'' = JStr e) us"

definition product_findById :: "product list \<Rightarrow> oid \<Rightarrow> product option" where
  "product_findById ps i = find (\<lambda>p. product_id p = i) ps"

definition cart_findOne_user :: "oid cart list \<Rightarrow> oid \<Rightarrow> oid cart option" where
  "cart_findOne_user cs uid = find (\<lambda>c. cart_user c = uid) cs"

definition order_findById :: "oid order list \<Rightarrow> oid \<Rightarrow> oid order option" where
  "order_findById os i = find (\<lambda>r. order_id r = i) os"

text \<open>\<open>doc.save()\<close> of a document read from the store: the first document with its key is replaced.\<close>

fun replace_first :: "('a \<Rightarrow> bool) \<Rightarrow> 'a \<Rightarrow> 'a list \<Rightarrow> 'a list" where
  "replace_first P y [] = []"
| "replace_first P y (x # xs) = (if P x then y # xs else x # replace_first P y xs)"

section \<open>Token issue and verification (server/middleware/auth.js)\<close>

definition default_secret :: string where
  "default_secret = ''default-jwt-secret-for-development-change-in-production''"

text \<open>\<open>process.env.JWT_SECRET || '...'\<close>: an empty secret is falsy.\<close>

definition jwtSecret :: "env \<Rightarrow> string" where
  "jwtSecret e =
     (case JWT_SECRET e of
        None \<Rightarrow> default_secret
      | Some s \<Rightarrow> if s = [] then default_secret else s)"

definition generateToken :: "env \<Rightarrow> oid \<Rightarrow> string" where
  "generateToken e userId = jwt_sign e userId (jwtSecret e) ''7d''"

text \<open>\<open>req.headers.authorization?.split(' ')[1]\<close>; \<open>None\<close> is \<open>undefined\<close>.\<close>

definition bearer_token :: "string option \<Rightarrow> string option" where
  "bearer_token authorization =
     (case authorization of
        None \<Rightarrow> None
      | Some h \<Rightarrow>
          (case split_on CHR '' '' h of
             a # t # rest \<Rightarrow> Some t
           | _ \<Rightarrow> None))"

text \<open>
  The middleware answers the request itself (\<open>Inl\<close>) or calls \<open>next()\<close> with
  \<open>req.user\<close> set (\<open>Inr\<close>). A throw of \<open>jwt.verify\<close> is the \<open>None\<close> of
  \<open>jwt_verify\<close>.
\<close>

definition authenticate :: "env \<Rightarrow> db \<Rightarrow> string option \<Rightarrow> 'a response + user" where
  "authenticate e d authorization =
     (case bearer_token authorization of
        None \<Rightarrow> Inl (401, Msg ''Authentication required'')
      | Some token \<Rightarrow>
          if token = [] then Inl (401, Msg ''Authentication required'')
          else
            (case jwt_verify e token (jwtSecret e) of
               None \<Rightarrow> Inl (401, Msg ''Invalid or expired token'')
             | Some userId \<Rightarrow>
                 (case user_findById (users d) userId of
                    None \<Rightarrow> Inl (401, Msg ''User not found'')
                  | Some user \<Rightarrow> Inr user)))"

definition isAdmin :: "user option \<Rightarrow> 'a response + unit" where
  "isAdmin req_user =
     (case req_user of
        None \<Rightarrow> Inl (403, Msg ''Admin access required'')
      | Some u \<Rightarrow>
          if obj_get (user_fields u) ''role'' = JStr ''admin'' then Inr ()
          else Inl (403, Msg ''Admin access required''))"

text \<open>A route behind \<open>authenticate\<close>: the handler runs only after \<open>next()\<close>.\<close>

definition with_authenticate ::
  "env \<Rightarrow> db \<Rightarrow> string option \<Rightarrow> (user \<Rightarrow> db \<times> 'a response) \<Rightarrow> db \<times> 'a response" where
  "with_authenticate e d authorization handler =
     (case authenticate e d authorization of
        Inl r \<Rightarrow> (d, r)
      | Inr u \<Rightarrow> handler u)"

section \<open>Accounts (server/routes/authRoutes.js)\<close>

record auth_payload =
  ap_message :: string
  ap_token :: string
  ap_id :: oid
  ap_name :: json
  ap_email :: json
  ap_role :: json

text \<open>Modelled from the spec: server/models/User.js is not among the sources. Its schema
  gives a new user the role \<open>user\<close> by default.
\<close>

definition default_role :: json where
  "default_role = JStr ''user''"

text \<open>
  \<open>new User({ name, email: normalizedEmail, password })\<close>, with a fresh \<open>_id\<close> and the
  schema's default role.
\<close>

definition new_User :: "db \<Rightarrow> json \<Rightarrow> string \<Rightarrow> json \<Rightarrow> user" where
  "new_User d name email password =
     \<lparr>user_id = new_oid (map user_id (users d)),
      user_fields = [(''name'', name), (''email'', JStr email), (''password'', password),
                     (''role'', default_role)]\<rparr>"

text \<open>Modelled from the spec: the pre-save hook of the absent User model replaces the
  password path of a new user by a salted one-way hash (\<open>hash_password\<close>) before the
  document is stored.
\<close>

definition hash_on_save :: "env \<Rightarrow> user \<Rightarrow> user" where
  "hash_on_save e u =
     u\<lparr>user_fields :=
         obj_set ''password'' (hash_password e (obj_get (user_fields u) ''password''))
           (user_fields u)\<rparr>"

definition auth_reply :: "string \<Rightarrow> string \<Rightarrow> user \<Rightarrow> auth_payload" where
  "auth_reply m token u =
     \<lparr>ap_message = m, ap_token = token, ap_id = user_id u,
      ap_name = obj_get (user_fields u) ''name'',
      ap_email = obj_get (user_fields u) ''email'',
      ap_role = obj_get (user_fields u) ''role''\<rparr>"

text \<open>
  \<open>POST /signup\<close>. A truthy email that is not a string has no \<open>toLowerCase\<close>: the
  TypeError is caught and answered with 400.
\<close>

definition post_signup :: "env \<Rightarrow> db \<Rightarrow> obj \<Rightarrow> db \<times> auth_payload response" where
  "post_signup e d body =
     (let name = obj_get body ''name'';
          email = obj_get body ''email'';
          password = obj_get body ''password''
      in
        if \<not> truthy name \<or> \<not> truthy email \<or> \<not> truthy password
        then (d, (400, Msg ''Please provide all required fields''))
        else
          (case email of
             JStr em \<Rightarrow>
               (let normalizedEmail = trim e (toLowerCase e em) in
                  (case user_findOne_email (users d) normalizedEmail of
                     Some existingUser \<Rightarrow> (d, (400, Msg ''User already exists with this email''))
                   | None \<Rightarrow>
                       (let user = new_User d name normalizedEmail password in
                          (case user_save_error e user of
                             Some m \<Rightarrow> (d, (400, Msg m))
                           | None \<Rightarrow>
                               (let saved = hash_on_save e user;
                                    token = generateToken e (user_id saved)
                                in (d\<lparr>users := users d @ [saved]\<rparr>,
                                    (201, Json (auth_reply ''User created successfully'' token saved))))))))
           | _ \<Rightarrow> (d, (400, Msg ''email.toLowerCase is not a function''))))"

text \<open>
  \<open>POST /login\<close>. Its catch answers 500: a non-string email, or a throw of
  \<open>comparePassword\<close> (\<open>Inl\<close>).
\<close>

definition post_login :: "env \<Rightarrow> db \<Rightarrow> obj \<Rightarrow> auth_payload response" where
  "post_login e d body =
     (let email = obj_get body ''email'';
          password = obj_get body ''password''
      in
        if \<not> truthy email \<or> \<not> truthy password
        then (400, Msg ''Please provide email and password'')
        else
          (case email of
             JStr em \<Rightarrow>
               (let normalizedEmail = trim e (toLowerCase e em) in
                  (case user_findOne_email (users d) normalizedEmail of
                     None \<Rightarrow> (401, Msg ''Invalid credentials'')
                   | Some user \<Rightarrow>
                       (case comparePassword e user password of
                          Inl m \<Rightarrow> (500, Msg m)
                        | Inr isPasswordValid \<Rightarrow>
                            if \<not> isPasswordValid then (401, Msg ''Invalid credentials'')
                            else (200, Json (auth_reply ''Login successful''
                                               (generateToken e (user_id user)) user)))))
           | _ \<Rightarrow> (500, Msg ''email.toLowerCase is not a function'')))"

text \<open>\<open>PUT /profile\<close>, after \<open>authenticate\<close> has set \<open>req.user\<close>.\<close>

definition allowedUpdates :: "string list" where
  "allowedUpdates = [''name'', ''phone'', ''address'']"

definition assign_path :: "obj \<Rightarrow> string \<Rightarrow> user \<Rightarrow> user" where
  "assign_path body update u =
     u\<lparr>user_fields := obj_set update (obj_get body update) (user_fields u)\<rparr>"

definition put_profile :: "env \<Rightarrow> db \<Rightarrow> user \<Rightarrow> obj \<Rightarrow> db \<times> user response" where
  "put_profile e d req_user body =
     (let updates = obj_keys body;
          isValidOperation = list_all (\<lambda>update. update \<in> set allowedUpdates) updates
      in
        if \<not> isValidOperation then (d, (400, Msg ''Invalid updates''))
        else
          (let user = fold (assign_path body) updates req_user in
             (case user_save_error e user of
                Some m \<Rightarrow> (d, (400, Msg m))
              | None \<Rightarrow>
                  (d\<lparr>users := replace_first (\<lambda>u. user_id u = user_id user) user (users d)\<rparr>,
                   (200, Json user)))))"

text \<open>The route as mounted: \<open>router.put('/profile', authenticate, ...)\<close>.\<close>

definition route_put_profile :: "env \<Rightarrow> db \<Rightarrow> string option \<Rightarrow> obj \<Rightarrow> db \<times> user response" where
  "route_put_profile e d authorization body =
     with_authenticate e d authorization (\<lambda>u. put_profile e d u body)"

section \<open>Orders (server/routes/orderRoutes.js)\<close>

text \<open>\<open>populate('items.product')\<close>: each reference becomes the catalog document, or \<open>null\<close>.\<close>

definition populate_cart :: "product list \<Rightarrow> oid cart \<Rightarrow> product option cart" where
  "populate_cart ps c =
     \<lparr>cart_user = cart_user c,
      cart_items =
        map (\<lambda>ci. \<lparr>ci_product = product_findById ps (ci_product ci), quantity = quantity ci\<rparr>)
          (cart_items c)\<rparr>"

definition populate_order :: "product list \<Rightarrow> oid order \<Rightarrow> product option order" where
  "populate_order ps r =
     \<lparr>order_id = order_id r, order_user = order_user r,
      order_items =
        map (\<lambda>it. \<lparr>oi_product = product_findById ps (oi_product it), oi_name = oi_name it,
                   oi_image = oi_image it, oi_price = oi_price it,
                   oi_quantity = oi_quantity it\<rparr>)
          (order_items r),
      totalAmount = totalAmount r, shippingAddress = shippingAddress r,
      paymentMethod = paymentMethod r, paymentStatus = paymentStatus r,
      orderStatus = orderStatus r, createdAt = createdAt r\<rparr>"

text \<open>\<open>GET /\<close> and \<open>GET /:id\<close>.\<close>

definition get_orders :: "db \<Rightarrow> user \<Rightarrow> product option order list response" where
  "get_orders d req_user =
     (200, Json (map (populate_order (products d))
                   (sort_key (\<lambda>r. - int (createdAt r))
                      (filter (\<lambda>r. order_user r = user_id req_user) (orders d)))))"

definition get_order :: "db \<Rightarrow> user \<Rightarrow> oid \<Rightarrow> product option order response" where
  "get_order d req_user i =
     (case find (\<lambda>r. order_id r = i \<and> order_user r = user_id req_user) (orders d) of
        None \<Rightarrow> (404, Msg ''Order not found'')
      | Some r \<Rightarrow> (200, Json (populate_order (products d) r)))"

text \<open>
  The callback of \<open>cart.items.map\<close>, with the running \<open>totalAmount\<close> of the enclosing
  scope: \<open>itemTotal = product.new_price * cartItem.quantity\<close> and
  \<open>totalAmount += itemTotal\<close> are operations on Numbers. Reading \<open>new_price\<close> of a
  \<open>null\<close> product throws (\<open>None\<close>).
\<close>

fun order_lines ::
  "product option cart_item list \<Rightarrow> number \<Rightarrow> (oid order_item list \<times> number) option" where
  "order_lines [] amount = Some ([], amount)"
| "order_lines (cartItem # rest) amount =
     (case ci_product cartItem of
        None \<Rightarrow> None
      | Some product \<Rightarrow>
          (let itemTotal = num_mul (to_double (new_price product))
                             (to_double (of_int (quantity cartItem)))
           in
             (case order_lines rest (num_add amount itemTotal) of
                None \<Rightarrow> None
              | Some (items, amount') \<Rightarrow>
                  Some (\<lparr>oi_product = product_id product, oi_name = product_name product,
                         oi_image = image product, oi_price = to_double (new_price product),
                         oi_quantity = quantity cartItem\<rparr> # items, amount'))))"

text \<open>The message of the TypeError that reading \<open>new_price\<close> of \<open>null\<close> throws.\<close>

definition null_property_message :: string where
  "null_property_message =
     ''Cannot read properties of null (reading '' @ [CHR 0x27] @ ''new_price'' @ [CHR 0x27]
       @ '')''"

text \<open>\<open>new Order({ ... })\<close>, with a fresh \<open>_id\<close> and the creation timestamp.\<close>

definition new_Order ::
  "env \<Rightarrow> db \<Rightarrow> user \<Rightarrow> oid order_item list \<Rightarrow> number \<Rightarrow> json \<Rightarrow> json \<Rightarrow> oid order" where
  "new_Order e d req_user orderItems amount shippingAddress' paymentMethod' =
     \<lparr>order_id = new_oid (map order_id (orders d)),
      order_user = user_id req_user,
      order_items = orderItems,
      totalAmount = amount,
      shippingAddress = shippingAddress',
      paymentMethod = (if truthy paymentMethod' then paymentMethod' else JStr ''cash_on_delivery''),
      paymentStatus = JStr ''pending'',
      orderStatus = JStr ''pending'',
      createdAt = now e\<rparr>"

text \<open>
  \<open>POST /\<close>: create an order from the cart. Every throw inside the handler is caught
  and answered with 400 and the error's message.
\<close>

definition post_order :: "env \<Rightarrow> db \<Rightarrow> user \<Rightarrow> obj \<Rightarrow> db \<times> oid order response" where
  "post_order e d req_user body =
     (let shippingAddress' = obj_get body ''shippingAddress'';
          paymentMethod' = obj_get body ''paymentMethod''
      in
        if \<not> truthy shippingAddress' then (d, (400, Msg ''Shipping address is required''))
        else
          (case cart_findOne_user (carts d) (user_id req_user) of
             None \<Rightarrow> (d, (400, Msg ''Cart is empty''))
           | Some cart \<Rightarrow>
               if length (cart_items cart) = 0 then (d, (400, Msg ''Cart is empty''))
               else
                 (case order_lines (cart_items (populate_cart (products d) cart)) (Finite 0) of
                    None \<Rightarrow> (d, (400, Msg null_property_message))
                  | Some (orderItems, amount) \<Rightarrow>
                      (let order = new_Order e d req_user orderItems amount
                                     shippingAddress' paymentMethod'
                       in
                         (case order_save_error e order of
                            Some m \<Rightarrow> (d, (400, Msg m))
                          | None \<Rightarrow>
                              (let d1 = d\<lparr>orders := orders d @ [order]\<rparr>;
                                   cart' = cart\<lparr>cart_items := []\<rparr>
                               in
                                 (case cart_save_error e cart' of
                                    Some m \<Rightarrow> (d1, (400, Msg m))
                                  | None \<Rightarrow>
                                      (d1\<lparr>carts :=
                                            replace_first (\<lambda>c. cart_user c = cart_user cart')
                                              cart' (carts d1)\<rparr>,
                                       (201, Json order)))))))))"

text \<open>\<open>PUT /:id/status\<close>.\<close>

definition put_order_status ::
  "env \<Rightarrow> db \<Rightarrow> user \<Rightarrow> oid \<Rightarrow> obj \<Rightarrow> db \<times> oid order response" where
  "put_order_status e d req_user i body =
     (let orderStatus' = obj_get body ''orderStatus'';
          paymentStatus' = obj_get body ''paymentStatus''
      in
        (case order_findById (orders d) i of
           None \<Rightarrow> (d, (404, Msg ''Order not found''))
         | Some r \<Rightarrow>
             if obj_get (user_fields req_user) ''role'' \<noteq> JStr ''admin''
                \<and> order_user r \<noteq> user_id req_user
             then (d, (403, Msg ''Not authorized''))
             else
               (let r1 = (if truthy orderStatus' then r\<lparr>orderStatus := orderStatus'\<rparr> else r);
                    r2 = (if truthy paymentStatus' then r1\<lparr>paymentStatus := paymentStatus'\<rparr>
                          else r1)
                in
                  (case order_save_error e r2 of
                     Some m \<Rightarrow> (d, (400, Msg m))
                   | None \<Rightarrow>
                       (d\<lparr>orders := replace_first (\<lambda>x. order_id x = order_id r2) r2 (orders d)\<rparr>,
                        (200, Json r2))))))"

text \<open>
  The routes as mounted: \<open>router.use(authenticate)\<close> guards every order route, and
  \<open>PUT /:id/status\<close> names the middleware once more.
\<close>

definition route_get_orders ::
  "env \<Rightarrow> db \<Rightarrow> string option \<Rightarrow> db \<times> product option order list response" where
  "route_get_orders e d authorization =
     with_authenticate e d authorization (\<lambda>u. (d, get_orders d u))"

definition route_get_order ::
  "env \<Rightarrow> db \<Rightarrow> string option \<Rightarrow> oid \<Rightarrow> db \<times> product option order response" where
  "route_get_order e d authorization i =
     with_authenticate e d authorization (\<lambda>u. (d, get_order d u i))"

definition route_post_order ::
  "env \<Rightarrow> db \<Rightarrow> string option \<Rightarrow> obj \<Rightarrow> db \<times> oid order response" where
  "route_post_order e d authorization body =
     with_authenticate e d authorization (\<lambda>u. post_order e d u body)"

definition route_put_order_status ::
  "env \<Rightarrow> db \<Rightarrow> string option \<Rightarrow> oid \<Rightarrow> obj \<Rightarrow> db \<times> oid order response" where
  "route_put_order_status e d authorization i body =
     with_authenticate e d authorization
       (\<lambda>u0. with_authenticate e d authorization (\<lambda>u. put_order_status e d u i body))"

section \<open>The cart operations\<close>

text \<open>
  server/routes/cartRoutes.js and server/models/Cart.js are not among the sources; only
  the import of the router, its mount point and the client's calls are. The operations
  of this section follow the specification's section on the Cart Aggregate, over the
  cart documents that the order route reads.
\<close>

text \<open>Modelled from the spec: \<open>read(user)\<close> returns the current cart, lazily creating an
  empty cart if none exists.
\<close>

definition cart_read :: "db \<Rightarrow> oid \<Rightarrow> db \<times> oid cart" where
  "cart_read d uid =
     (case cart_findOne_user (carts d) uid of
        Some c \<Rightarrow> (d, c)
      | None \<Rightarrow>
          (let c = \<lparr>cart_user = uid, cart_items = []\<rparr> in (d\<lparr>carts := carts d @ [c]\<rparr>, c)))"

text \<open>Modelled from the spec: a mutation works on the user's cart, created on first
  mutation, and stores the cart with its new entries.
\<close>

definition cart_update ::
  "db \<Rightarrow> oid \<Rightarrow> (oid cart_item list \<Rightarrow> oid cart_item list) \<Rightarrow> db" where
  "cart_update d uid f =
     (case cart_read d uid of
        (d1, c) \<Rightarrow>
          d1\<lparr>carts := replace_first (\<lambda>x. cart_user x = uid) (c\<lparr>cart_items := f (cart_items c)\<rparr>)
                        (carts d1)\<rparr>)"

text \<open>Modelled from the spec: if an entry for the product exists, its quantity is
  incremented by the given quantity; else a new entry with that quantity is inserted.
\<close>

fun add_entry :: "oid \<Rightarrow> int \<Rightarrow> oid cart_item list \<Rightarrow> oid cart_item list" where
  "add_entry p q [] = [\<lparr>ci_product = p, quantity = q\<rparr>]"
| "add_entry p q (it # its) =
     (if ci_product it = p then it\<lparr>quantity := quantity it + q\<rparr> # its
      else it # add_entry p q its)"

text \<open>Modelled from the spec: \<open>addItem(user, productRef, qty)\<close> requires a quantity of at
  least 1; \<open>None\<close> is the refusal of a request that does not meet the requirement.
\<close>

definition addItem :: "db \<Rightarrow> oid \<Rightarrow> oid \<Rightarrow> int \<Rightarrow> db option" where
  "addItem d uid p qty = (if qty < 1 then None else Some (cart_update d uid (add_entry p qty)))"

text \<open>Modelled from the spec: \<open>updateItem(user, productRef, qty)\<close> sets the entry's quantity
  to the given one if that is at least 1, and removes the entry entirely if it is 0 or
  less.
\<close>

definition updateItem :: "db \<Rightarrow> oid \<Rightarrow> oid \<Rightarrow> int \<Rightarrow> db" where
  "updateItem d uid p qty =
     cart_update d uid
       (if qty \<le> 0 then filter (\<lambda>it. ci_product it \<noteq> p)
        else map (\<lambda>it. if ci_product it = p then it\<lparr>quantity := qty\<rparr> else it))"

text \<open>Modelled from the spec: \<open>removeItem(user, productRef)\<close> deletes the entry if present
  and changes nothing if it is absent.
\<close>

definition removeItem :: "db \<Rightarrow> oid \<Rightarrow> oid \<Rightarrow> db" where
  "removeItem d uid p = cart_update d uid (filter (\<lambda>it. ci_product it \<noteq> p))"

text \<open>Modelled from the spec: \<open>clear(user)\<close> empties all entries.\<close>

definition clear :: "db \<Rightarrow> oid \<Rightarrow> db" where
  "clear d uid = cart_update d uid (\<lambda>its. [])"

text \<open>The invariant of the Cart: every stored entry has a quantity of at least 1.\<close>

definition quantities_positive :: "db \<Rightarrow> bool" where
  "quantities_positive d =
     list_all (\<lambda>c. list_all (\<lambda>it. 1 \<le> quantity it) (cart_items c)) (carts d)"

section \<open>Sequences of registrations\<close>

text \<open>Signup requests served one after the other, each on the store the previous one left.\<close>

fun signups :: "env \<Rightarrow> db \<Rightarrow> obj list \<Rightarrow> auth_payload response list" where
  "signups e d [] = []"
| "signups e d (body # bodies) =
     (case post_signup e d body of (d', r) \<Rightarrow> r # signups e d' bodies)"

definition normalized_email :: "env \<Rightarrow> obj \<Rightarrow> string option" where
  "normalized_email e body =
     (case obj_get body ''email'' of
        JStr em \<Rightarrow> Some (trim e (toLowerCase e em))
      | _ \<Rightarrow> None)"

definition registered :: "env \<Rightarrow> string \<Rightarrow> obj \<times> auth_payload response \<Rightarrow> bool" where
  "registered e n br = (fst (snd br) = 201 \<and> normalized_email e (fst br) = Some n)"

section \<open>A concrete store\<close>

definition env0 :: env where
  "env0 =
     \<lparr>JWT_SECRET = None,
      toLowerCase = latin1_toLowerCase,
      trim = latin1_trim,
      jwt_sign = (\<lambda>i s x. ''tok'' @ replicate i CHR ''x''),
      jwt_verify = (\<lambda>t s. if take 3 t = ''tok'' then Some (length t - 3) else None),
      hash_password = (\<lambda>p. JArr [p]),
      comparePassword = (\<lambda>u p. Inr (obj_get (user_fields u) ''password'' = JArr [p])),
      user_save_error = (\<lambda>u. None),
      order_save_error = (\<lambda>r. None),
      cart_save_error = (\<lambda>c. None),
      now = 7\<rparr>"

text \<open>
  A password comparison that does what the comments of authRoutes.js say of it, a
  bcrypt comparison: bcryptjs throws \<open>Illegal arguments\<close> with the two types when the
  candidate is not a string.
\<close>

definition bcrypt_compare :: "user \<Rightarrow> json \<Rightarrow> string + bool" where
  "bcrypt_compare u p =
     (case p of
        JStr s \<Rightarrow> Inr (obj_get (user_fields u) ''password'' = JArr [p])
      | _ \<Rightarrow> Inl (''Illegal arguments: '' @ typeof p @ '', string''))"

definition env_bcrypt :: env where
  "env_bcrypt = env0\<lparr>comparePassword := bcrypt_compare\<rparr>"



definition alice :: user where
  "alice = \<lparr>user_id = 1,
            user_fields = [(''name'', JStr ''Alice''), (''email'', JStr ''alice@shop.test''),
                           (''password'', JArr [JStr ''secret1'']), (''role'', JStr ''user'')]\<rparr>"

definition bob :: user where
  "bob = \<lparr>user_id = 2,
          user_fields = [(''name'', JStr ''Bob''), (''email'', JStr ''bob@shop.test''),
                         (''password'', JArr [JStr ''secret2'']), (''role'', JStr ''user'')]\<rparr>"

definition carol :: user where
  "carol = \<lparr>user_id = 3,
            user_fields = [(''name'', JStr ''Carol''), (''email'', JStr ''carol@shop.test''),
                           (''password'', JArr [JStr ''secret3'']), (''role'', JStr ''admin'')]\<rparr>"

definition p1 :: product where
  "p1 = \<lparr>product_id = 10, product_name = ''Kurti'', image = ''/assets/women1.jfif'', new_price = 10\<rparr>"

definition p2 :: product where
  "p2 = \<lparr>product_id = 11, product_name = ''Jeans'', image = ''/assets/men1.webp'', new_price = 5\<rparr>"

definition alice_cart :: "oid cart" where
  "alice_cart =
     \<lparr>cart_user = 1,
      cart_items = [\<lparr>ci_product = 10, quantity = 2\<rparr>, \<lparr>ci_product = 11, quantity = 1\<rparr>]\<rparr>"

definition bob_cart :: "oid cart" where
  "bob_cart = \<lparr>cart_user = 2, cart_items = []\<rparr>"

definition alice_order :: "oid order" where
  "alice_order =
     \<lparr>order_id = 100, order_user = 1,
      order_items = [\<lparr>oi_product = 10, oi_name = ''Kurti'', oi_image = ''/assets/women1.jfif'',
                      oi_price = Finite 8, oi_quantity = 1\<rparr>],
      totalAmount = Finite 8,
      shippingAddress = JObj [(''street'', JStr ''1 Main St''), (''city'', JStr ''Patna'')],
      paymentMethod = JStr ''cash_on_delivery'',
      paymentStatus = JStr ''pending'', orderStatus = JStr ''pending'', createdAt = 3\<rparr>"

definition db0 :: db where
  "db0 = \<lparr>users = [alice, bob, carol], products = [p1, p2],
          carts = [alice_cart, bob_cart], orders = [alice_order]\<rparr>"

text \<open>A third product, priced 0.1, and a store where the second user's cart holds 3 of it.\<close>

definition p3 :: product where
  "p3 = \<lparr>product_id = 12, product_name = ''Ribbon'', image = ''/assets/ribbon.webp'',
         new_price = 1 / 10\<rparr>"

definition db1 :: db where
  "db1 = db0\<lparr>products := [p1, p2, p3],
             carts := [alice_cart,
                       \<lparr>cart_user = 2, cart_items = [\<lparr>ci_product = 12, quantity = 3\<rparr>]\<rparr>]\<rparr>"

definition address0 :: json where
  "address0 = JObj [(''street'', JStr ''1 Main St''), (''city'', JStr ''Patna''),
                    (''state'', JStr ''Bihar''), (''zipCode'', JStr ''800001''),
                    (''country'', JStr ''India'')]"

section \<open>Auxiliary facts\<close>

lemma find_Some_pred: "find P xs = Some x \<Longrightarrow> P x \<and> x \<in> set xs"
  by (induction xs) (auto split: if_splits)

section \<open>Token verification\<close>

text \<open>
  Claim C4. A token that \<open>jwt.verify\<close> accepts (valid signature, not expired) whose
  subject is no longer in the user collection is answered 401. Every answer the
  middleware gives itself has status 401: no token (or an empty one), a token that
  \<open>jwt.verify\<close> rejects, a subject that is not found. When it calls \<open>next()\<close>,
  \<open>req.user\<close> is the document the store holds now for the token's subject, so the role
  read downstream is the current one.
\<close>

theorem authenticate_unauthenticated:
  fixes e :: env and d :: db and a :: "string option"
  shows
  "(bearer_token a = Some t \<and> t \<noteq> [] \<and> jwt_verify e t (jwtSecret e) = Some uid
      \<and> user_findById (users d) uid = None
      \<longrightarrow> (authenticate e d a :: 'a response + user) = Inl (401, Msg ''User not found''))
   \<and> (bearer_token a = None \<or> bearer_token a = Some []
      \<longrightarrow> (authenticate e d a :: 'a response + user) = Inl (401, Msg ''Authentication required''))
   \<and> (bearer_token a = Some t \<and> t \<noteq> [] \<and> jwt_verify e t (jwtSecret e) = None
      \<longrightarrow> (authenticate e d a :: 'a response + user) = Inl (401, Msg ''Invalid or expired token''))
   \<and> (\<forall>r. (authenticate e d a :: 'a response + user) = Inl r \<longrightarrow> fst r = 401)
   \<and> (\<forall>u. (authenticate e d a :: 'a response + user) = Inr u \<longrightarrow>
         (\<exists>t' uid'. bearer_token a = Some t' \<and> t' \<noteq> []
            \<and> jwt_verify e t' (jwtSecret e) = Some uid'
            \<and> user_findById (users d) uid' = Some u \<and> user_id u = uid' \<and> u \<in> set (users d)))"
  by (auto simp: authenticate_def user_findById_def split: option.splits if_splits
      dest: find_Some_pred)

text \<open>
  The token of a user with id 4, who is not in the store, a token that does not verify,
  no token at all, and the token of a stored user.
\<close>

theorem authenticate_unauthenticated_witness:
  "bearer_token (Some ''Bearer tokxxxx'') = Some ''tokxxxx''
   \<and> jwt_verify env0 ''tokxxxx'' (jwtSecret env0) = Some 4
   \<and> user_findById (users db0) 4 = None
   \<and> (authenticate env0 db0 (Some ''Bearer tokxxxx'') :: unit response + user)
        = Inl (401, Msg ''User not found'')
   \<and> bearer_token (Some ''Bearer expired'') = Some ''expired''
   \<and> jwt_verify env0 ''expired'' (jwtSecret env0) = None
   \<and> (authenticate env0 db0 (Some ''Bearer expired'') :: unit response + user)
        = Inl (401, Msg ''Invalid or expired token'')
   \<and> (authenticate env0 db0 None :: unit response + user)
        = Inl (401, Msg ''Authentication required'')
   \<and> (authenticate env0 db0 (Some ''Bearer tokx'') :: unit response + user) = Inr alice
   \<and> user_findById (users db0) 1 = Some alice"
proof -
  have a: "bearer_token (Some ''Bearer tokxxxx'') = Some ''tokxxxx''" by code_simp
  have b: "jwt_verify env0 ''tokxxxx'' (jwtSecret env0) = Some 4" by code_simp
  have c: "user_findById (users db0) 4 = None" by code_simp
  have n: "''tokxxxx'' \<noteq> []" "''expired'' \<noteq> []" by simp_all
  have a': "bearer_token (Some ''Bearer expired'') = Some ''expired''" by code_simp
  have b': "jwt_verify env0 ''expired'' (jwtSecret env0) = None" by code_simp
  have a'': "bearer_token None = None" by code_simp
  have ok: "(authenticate env0 db0 (Some ''Bearer tokx'') :: unit response + user) = Inr alice"
    by code_simp
  have i: "user_id alice = 1" by code_simp
  have r1: "(authenticate env0 db0 (Some ''Bearer tokxxxx'') :: unit response + user)
        = Inl (401, Msg ''User not found'')"
    using authenticate_unauthenticated [where a = "Some ''Bearer tokxxxx''" and t = "''tokxxxx''"
        and e = env0 and uid = 4 and d = db0 and 'a = unit] a b c n(1)
    by blast
  have r2: "(authenticate env0 db0 (Some ''Bearer expired'') :: unit response + user)
        = Inl (401, Msg ''Invalid or expired token'')"
    using authenticate_unauthenticated [where a = "Some ''Bearer expired''" and t = "''expired''"
        and e = env0 and d = db0 and 'a = unit] a' b' n(2)
    by blast
  have r3: "(authenticate env0 db0 None :: unit response + user)
        = Inl (401, Msg ''Authentication required'')"
    using authenticate_unauthenticated [where a = None and e = env0 and d = db0 and 'a = unit] a''
    by blast
  have r4: "user_findById (users db0) 1 = Some alice"
    using authenticate_unauthenticated [where a = "Some ''Bearer tokx''" and e = env0 and d = db0
        and 'a = unit] ok i
    by metis
  from a b c a' b' r1 r2 r3 ok r4 show ?thesis by blast
qed

section \<open>Login\<close>

lemma login_401:
  "fst (post_login e d b) = 401 \<Longrightarrow> post_login e d b = (401, Msg ''Invalid credentials'')"
  by (auto simp: post_login_def Let_def split: if_splits json.splits option.splits sum.splits)

lemma login_unknown_email:
  assumes "obj_get b ''email'' = JStr em" and "em \<noteq> []" and "truthy (obj_get b ''password'')"
    and "user_findOne_email (users d) (trim e (toLowerCase e em)) = None"
  shows "post_login e d b = (401, Msg ''Invalid credentials'')"
  using assms by (simp add: post_login_def)

lemma login_known_email:
  assumes "obj_get b ''email'' = JStr em" and "em \<noteq> []" and "truthy (obj_get b ''password'')"
    and "user_findOne_email (users d) (trim e (toLowerCase e em)) = Some u"
  shows "post_login e d b
           = (case comparePassword e u (obj_get b ''password'') of
                Inl m \<Rightarrow> (500, Msg m)
              | Inr isPasswordValid \<Rightarrow>
                  if \<not> isPasswordValid then (401, Msg ''Invalid credentials'')
                  else (200, Json (auth_reply ''Login successful''
                                     (generateToken e (user_id u)) u)))"
  using assms by (simp add: post_login_def)

text \<open>
  Claim C5 holds for a wrong password that the comparison rejects and fails for one on
  which the comparison throws. Of two login requests that both carry an email and a
  password, the one whose normalized email matches no user is answered 401 with the
  message \<open>Invalid credentials\<close>. The one whose email matches a user gets the same
  answer when \<open>comparePassword\<close> returns false; when \<open>comparePassword\<close> throws, the
  catch of the route answers 500 with the error's message, which differs from the
  answer to the unknown email. The comments of the route state the intent that the two
  causes are answered alike.
\<close>

theorem login_failure_responses:
  assumes "obj_get b1 ''email'' = JStr e1" and "e1 \<noteq> []" and "truthy (obj_get b1 ''password'')"
    and "user_findOne_email (users d) (trim e (toLowerCase e e1)) = None"
    and "obj_get b2 ''email'' = JStr e2" and "e2 \<noteq> []" and "truthy (obj_get b2 ''password'')"
    and "user_findOne_email (users d) (trim e (toLowerCase e e2)) = Some u"
  shows "post_login e d b1 = (401, Msg ''Invalid credentials'')
         \<and> (comparePassword e u (obj_get b2 ''password'') = Inr False
              \<longrightarrow> post_login e d b2 = post_login e d b1)
         \<and> (comparePassword e u (obj_get b2 ''password'') = Inl m
              \<longrightarrow> post_login e d b2 = (500, Msg m) \<and> post_login e d b2 \<noteq> post_login e d b1)"
proof -
  have r1: "post_login e d b1 = (401, Msg ''Invalid credentials'')"
    using assms(1-4) by (rule login_unknown_email)
  note r2 = login_known_email [OF assms(5-8)]
  show ?thesis
  proof (intro conjI impI)
    show "post_login e d b1 = (401, Msg ''Invalid credentials'')" by (rule r1)
  next
    assume "comparePassword e u (obj_get b2 ''password'') = Inr False"
    with r1 r2 show "post_login e d b2 = post_login e d b1" by simp
  next
    assume "comparePassword e u (obj_get b2 ''password'') = Inl m"
    with r2 show "post_login e d b2 = (500, Msg m)" by simp
    with r1 show "post_login e d b2 \<noteq> post_login e d b1" by simp
  qed
qed

text \<open>
  With a bcrypt comparison, the password \<open>123456\<close> sent as a number tells a registered
  email (500) from an unknown one (401); a wrong password sent as a string does not.
\<close>

theorem login_failure_responses_witness:
  "post_login env_bcrypt db0 [(''email'', JStr ''nobody@shop.test''), (''password'', JNum 123456)]
     = (401, Msg ''Invalid credentials'')
   \<and> post_login env_bcrypt db0 [(''email'', JStr ''alice@shop.test''), (''password'', JNum 123456)]
     = (500, Msg ''Illegal arguments: number, string'')
   \<and> post_login env_bcrypt db0 [(''email'', JStr '' Alice@Shop.test ''), (''password'', JStr ''wrong'')]
     = post_login env_bcrypt db0
         [(''email'', JStr ''nobody@shop.test''), (''password'', JNum 123456)]"
proof -
  define b1 where "b1 = [(''email'', JStr ''nobody@shop.test''), (''password'', JNum 123456)]"
  define b2 where "b2 = [(''email'', JStr ''alice@shop.test''), (''password'', JNum 123456)]"
  define b3 where "b3 = [(''email'', JStr '' Alice@Shop.test ''), (''password'', JStr ''wrong'')]"
  have h1: "obj_get b1 ''email'' = JStr ''nobody@shop.test''" unfolding b1_def by code_simp
  have h2: "''nobody@shop.test'' \<noteq> []" by simp
  have h3: "truthy (obj_get b1 ''password'')" unfolding b1_def by code_simp
  have h4: "user_findOne_email (users db0)
              (trim env_bcrypt (toLowerCase env_bcrypt ''nobody@shop.test'')) = None"
    by code_simp
  have h5: "obj_get b2 ''email'' = JStr ''alice@shop.test''" unfolding b2_def by code_simp
  have h6: "''alice@shop.test'' \<noteq> []" by simp
  have h7: "truthy (obj_get b2 ''password'')" unfolding b2_def by code_simp
  have h8: "user_findOne_email (users db0)
              (trim env_bcrypt (toLowerCase env_bcrypt ''alice@shop.test'')) = Some alice"
    by code_simp
  have h9: "comparePassword env_bcrypt alice (obj_get b2 ''password'')
              = Inl ''Illegal arguments: number, string''"
    unfolding b2_def by code_simp
  have k5: "obj_get b3 ''email'' = JStr '' Alice@Shop.test ''" unfolding b3_def by code_simp
  have k6: "'' Alice@Shop.test '' \<noteq> []" by simp
  have k7: "truthy (obj_get b3 ''password'')" unfolding b3_def by code_simp
  have k8: "user_findOne_email (users db0)
              (trim env_bcrypt (toLowerCase env_bcrypt '' Alice@Shop.test '')) = Some alice"
    by code_simp
  have k9: "comparePassword env_bcrypt alice (obj_get b3 ''password'') = Inr False"
    unfolding b3_def by code_simp
  from login_failure_responses [OF h1 h2 h3 h4 h5 h6 h7 h8] h9
  have r1: "post_login env_bcrypt db0 b1 = (401, Msg ''Invalid credentials'')"
    and r2: "post_login env_bcrypt db0 b2 = (500, Msg ''Illegal arguments: number, string'')"
    by blast+
  from login_failure_responses [OF h1 h2 h3 h4 k5 k6 k7 k8] k9
  have r3: "post_login env_bcrypt db0 b3 = post_login env_bcrypt db0 b1"
    by blast
  from r1 r2 r3 show ?thesis unfolding b1_def b2_def b3_def by blast
qed

section \<open>Profile update\<close>

lemma obj_get_set: "obj_get (obj_set k v ob) k' = (if k' = k then v else obj_get ob k')"
  by (simp add: obj_get_def obj_set_def update_conv')

lemma fold_assign_id: "user_id (fold (assign_path body) ks u) = user_id u"
  by (induction ks arbitrary: u) (simp_all add: assign_path_def)

lemma fold_assign_other:
  "k \<notin> set ks \<Longrightarrow>
   obj_get (user_fields (fold (assign_path body) ks u)) k = obj_get (user_fields u) k"
  by (induction ks arbitrary: u) (auto simp: assign_path_def obj_get_set)

lemma map_replace_first:
  "find P xs = Some x \<Longrightarrow> f y = f x \<Longrightarrow> map f (replace_first P y xs) = map f xs"
  by (induction xs) (auto split: if_splits)

lemma put_profile_frame:
  assumes "user_findById (users d) (user_id u) = Some u" and "k \<notin> set allowedUpdates"
  shows "map (\<lambda>v. (user_id v, obj_get (user_fields v) k)) (users (fst (put_profile e d u body)))
         = map (\<lambda>v. (user_id v, obj_get (user_fields v) k)) (users d)"
proof (cases "list_all (\<lambda>update. update \<in> set allowedUpdates) (obj_keys body)")
  case False
  then show ?thesis by (simp add: put_profile_def)
next
  case True
  then have "k \<notin> set (obj_keys body)"
    using assms(2) by (auto simp: list_all_iff)
  then have same: "obj_get (user_fields (fold (assign_path body) (obj_keys body) u)) k
                     = obj_get (user_fields u) k"
    by (rule fold_assign_other)
  show ?thesis
  proof (cases "user_save_error e (fold (assign_path body) (obj_keys body) u)")
    case None
    with True show ?thesis
      using assms(1) same
      by (simp add: put_profile_def Let_def fold_assign_id user_findById_def map_replace_first)
  next
    case (Some m)
    with True show ?thesis by (simp add: put_profile_def Let_def)
  qed
qed

lemma authenticate_stored:
  "(authenticate e d a :: 'a response + user) = Inr u
   \<Longrightarrow> user_findById (users d) (user_id u) = Some u"
  by (auto simp: authenticate_def user_findById_def split: option.splits if_splits
      dest: find_Some_pred)

lemma route_put_profile_frame:
  assumes "k \<notin> set allowedUpdates"
  shows "map (\<lambda>v. (user_id v, obj_get (user_fields v) k))
           (users (fst (route_put_profile e d a body)))
         = map (\<lambda>v. (user_id v, obj_get (user_fields v) k)) (users d)"
proof (cases "authenticate e d a :: user response + user")
  case (Inl r)
  then show ?thesis by (simp add: route_put_profile_def with_authenticate_def)
next
  case (Inr u)
  from put_profile_frame [OF authenticate_stored [OF Inr] assms, of e body] Inr
  show ?thesis by (simp add: route_put_profile_def with_authenticate_def)
qed

lemma map_snd_pairs: "map snd (map (\<lambda>v. (f v, g v)) xs) = map g xs"
  by (simp add: comp_def)

text \<open>
  Claim C9. A body with a key outside name, phone and address is answered 400 and the
  store is returned as it was. For every body, each path outside the allow-list, the
  email and the role among them, holds in every stored user what it held before: for
  the handler when \<open>req.user\<close> is the stored document, as \<open>authenticate\<close> sets it, and
  for the mounted route whatever the request.
\<close>

theorem profile_update_allow_list:
  "(k \<in> set (obj_keys body) \<and> k \<notin> {''name'', ''phone'', ''address''}
      \<longrightarrow> put_profile e d u body = (d, (400, Msg ''Invalid updates'')))
   \<and> (user_findById (users d) (user_id u) = Some u \<and> k' \<notin> {''name'', ''phone'', ''address''}
      \<longrightarrow> map (\<lambda>v. (user_id v, obj_get (user_fields v) k')) (users (fst (put_profile e d u body)))
           = map (\<lambda>v. (user_id v, obj_get (user_fields v) k')) (users d))
   \<and> map (\<lambda>v. obj_get (user_fields v) ''email'') (users (fst (route_put_profile e d a body)))
       = map (\<lambda>v. obj_get (user_fields v) ''email'') (users d)
   \<and> map (\<lambda>v. obj_get (user_fields v) ''role'') (users (fst (route_put_profile e d a body)))
       = map (\<lambda>v. obj_get (user_fields v) ''role'') (users d)"
proof (intro conjI impI)
  assume "k \<in> set (obj_keys body) \<and> k \<notin> {''name'', ''phone'', ''address''}"
  then have "\<not> list_all (\<lambda>update. update \<in> set allowedUpdates) (obj_keys body)"
    by (auto simp: list_all_iff allowedUpdates_def)
  then show "put_profile e d u body = (d, (400, Msg ''Invalid updates''))"
    by (simp add: put_profile_def)
next
  assume "user_findById (users d) (user_id u) = Some u \<and> k' \<notin> {''name'', ''phone'', ''address''}"
  then show "map (\<lambda>v. (user_id v, obj_get (user_fields v) k')) (users (fst (put_profile e d u body)))
           = map (\<lambda>v. (user_id v, obj_get (user_fields v) k')) (users d)"
    by (intro put_profile_frame) (simp_all add: allowedUpdates_def)
next
  have "''email'' \<notin> set allowedUpdates" by (simp add: allowedUpdates_def)
  from arg_cong [OF route_put_profile_frame [OF this, of e d a body], of "map snd"]
  show "map (\<lambda>v. obj_get (user_fields v) ''email'') (users (fst (route_put_profile e d a body)))
       = map (\<lambda>v. obj_get (user_fields v) ''email'') (users d)"
    by (simp only: map_snd_pairs)
next
  have "''role'' \<notin> set allowedUpdates" by (simp add: allowedUpdates_def)
  from arg_cong [OF route_put_profile_frame [OF this, of e d a body], of "map snd"]
  show "map (\<lambda>v. obj_get (user_fields v) ''role'') (users (fst (route_put_profile e d a body)))
       = map (\<lambda>v. obj_get (user_fields v) ''role'') (users d)"
    by (simp only: map_snd_pairs)
qed

theorem profile_update_allow_list_witness:
  "''role'' \<in> set (obj_keys [(''name'', JStr ''Al''), (''role'', JStr ''admin'')])
   \<and> put_profile env0 db0 alice [(''name'', JStr ''Al''), (''role'', JStr ''admin'')]
       = (db0, (400, Msg ''Invalid updates''))
   \<and> user_findById (users db0) (user_id alice) = Some alice
   \<and> map (\<lambda>v. (user_id v, obj_get (user_fields v) ''role''))
         (users (fst (put_profile env0 db0 alice [(''name'', JStr ''Al''), (''phone'', JStr ''555'')])))
       = map (\<lambda>v. (user_id v, obj_get (user_fields v) ''role'')) (users db0)
   \<and> users (fst (put_profile env0 db0 alice [(''name'', JStr ''Al''), (''phone'', JStr ''555'')]))
       \<noteq> users db0"
proof -
  have a: "''role'' \<in> set (obj_keys [(''name'', JStr ''Al''), (''role'', JStr ''admin'')])"
    by code_simp
  have b: "''role'' \<notin> {''name'', ''phone'', ''address''}" by simp
  have c: "user_findById (users db0) (user_id alice) = Some alice" by code_simp
  have d: "users (fst (put_profile env0 db0 alice [(''name'', JStr ''Al''), (''phone'', JStr ''555'')]))
       \<noteq> users db0" by code_simp
  have r1: "put_profile env0 db0 alice [(''name'', JStr ''Al''), (''role'', JStr ''admin'')]
       = (db0, (400, Msg ''Invalid updates''))"
    using profile_update_allow_list [where k = "''role''" and e = env0 and d = db0 and u = alice
        and body = "[(''name'', JStr ''Al''), (''role'', JStr ''admin'')]"] a b
    by blast
  have r2: "map (\<lambda>v. (user_id v, obj_get (user_fields v) ''role''))
         (users (fst (put_profile env0 db0 alice [(''name'', JStr ''Al''), (''phone'', JStr ''555'')])))
       = map (\<lambda>v. (user_id v, obj_get (user_fields v) ''role'')) (users db0)"
    using profile_update_allow_list [where e = env0 and d = db0 and u = alice
        and k' = "''role''"
        and body = "[(''name'', JStr ''Al''), (''phone'', JStr ''555'')]"] c b
    by blast
  from a r1 c r2 d show ?thesis by blast
qed

section \<open>Reading orders and updating their status\<close>

lemma find_None_distinct:
  assumes "distinct (map f xs)" and "r \<in> set xs" and "\<not> Q r"
  shows "find (\<lambda>x. f x = f r \<and> Q x) xs = None"
proof -
  have "\<And>x. x \<in> set xs \<Longrightarrow> f x = f r \<Longrightarrow> x = r"
    using assms(1,2) by (meson distinct_map inj_onD)
  with assms(3) show ?thesis by (auto simp: find_None_iff)
qed

lemma order_user_populate: "order_user (populate_order ps r) = order_user r"
  by (simp add: populate_order_def)

text \<open>
  Claim C10. \<open>GET /orders\<close> returns the requester's orders and no other;
  \<open>GET /orders/:id\<close> answers 404 for a stored order that another user owns. Neither
  handler reads the requester's role (or any path but \<open>_id\<close>), so an admin gets the
  same answers. The mounted routes hand the authenticated requester to these handlers.
\<close>

theorem order_reads_owner_only:
  "(\<exists>rs. get_orders d u = (200, Json rs)
        \<and> (\<forall>r \<in> set rs. order_user r = user_id u)
        \<and> length rs = length (filter (\<lambda>r. order_user r = user_id u) (orders d)))
   \<and> (distinct (map order_id (orders d)) \<and> r \<in> set (orders d) \<and> order_user r \<noteq> user_id u
        \<longrightarrow> get_order d u (order_id r) = (404, Msg ''Order not found''))
   \<and> get_orders d (u\<lparr>user_fields := fs\<rparr>) = get_orders d u
   \<and> get_order d (u\<lparr>user_fields := fs\<rparr>) i = get_order d u i
   \<and> ((authenticate e d a :: product option order response + user) = Inr u
        \<and> distinct (map order_id (orders d)) \<and> r \<in> set (orders d)
        \<and> order_user r \<noteq> user_id u
        \<longrightarrow> route_get_order e d a (order_id r) = (d, (404, Msg ''Order not found'')))
   \<and> ((authenticate e d a :: product option order list response + user) = Inr u
        \<longrightarrow> route_get_orders e d a = (d, get_orders d u))"
proof (intro conjI impI)
  show "\<exists>rs. get_orders d u = (200, Json rs)
        \<and> (\<forall>r \<in> set rs. order_user r = user_id u)
        \<and> length rs = length (filter (\<lambda>r. order_user r = user_id u) (orders d))"
    by (auto simp: get_orders_def order_user_populate)
next
  assume h: "distinct (map order_id (orders d)) \<and> r \<in> set (orders d) \<and> order_user r \<noteq> user_id u"
  then have "find (\<lambda>x. order_id x = order_id r \<and> order_user x = user_id u) (orders d) = None"
    by (intro find_None_distinct) simp_all
  then show "get_order d u (order_id r) = (404, Msg ''Order not found'')"
    by (simp add: get_order_def)
next
  show "get_orders d (u\<lparr>user_fields := fs\<rparr>) = get_orders d u"
    by (simp add: get_orders_def)
next
  show "get_order d (u\<lparr>user_fields := fs\<rparr>) i = get_order d u i"
    by (simp add: get_order_def)
next
  assume h: "(authenticate e d a :: product option order response + user) = Inr u
        \<and> distinct (map order_id (orders d)) \<and> r \<in> set (orders d)
        \<and> order_user r \<noteq> user_id u"
  then have "find (\<lambda>x. order_id x = order_id r \<and> order_user x = user_id u) (orders d) = None"
    by (intro find_None_distinct) simp_all
  with h show "route_get_order e d a (order_id r) = (d, (404, Msg ''Order not found''))"
    by (simp add: route_get_order_def with_authenticate_def get_order_def)
next
  assume "(authenticate e d a :: product option order list response + user) = Inr u"
  then show "route_get_orders e d a = (d, get_orders d u)"
    by (simp add: route_get_orders_def with_authenticate_def)
qed

theorem order_reads_owner_only_witness:
  "obj_get (user_fields carol) ''role'' = JStr ''admin''
   \<and> alice_order \<in> set (orders db0)
   \<and> order_user alice_order \<noteq> user_id carol
   \<and> get_order db0 carol 100 = (404, Msg ''Order not found'')
   \<and> (authenticate env0 db0 (Some ''Bearer tokxxx'') :: product option order response + user)
        = Inr carol
   \<and> route_get_order env0 db0 (Some ''Bearer tokxxx'') 100 = (db0, (404, Msg ''Order not found''))
   \<and> fst (get_order db0 alice 100) = 200
   \<and> get_orders db0 alice = (200, Json [populate_order (products db0) alice_order])
   \<and> get_orders db0 carol = (200, Json [])"
proof -
  have a: "distinct (map order_id (orders db0))" by code_simp
  have b: "alice_order \<in> set (orders db0)" by (simp add: db0_def)
  have c: "order_user alice_order \<noteq> user_id carol" by code_simp
  have i: "order_id alice_order = 100" by (simp add: alice_order_def)
  have r: "obj_get (user_fields carol) ''role'' = JStr ''admin''" by code_simp
  have t: "(authenticate env0 db0 (Some ''Bearer tokxxx'') :: product option order response + user)
        = Inr carol" by code_simp
  have g: "fst (get_order db0 alice 100) = 200" by code_simp
  have l: "get_orders db0 alice = (200, Json [populate_order (products db0) alice_order])"
    by code_simp
  have l': "get_orders db0 carol = (200, Json [])" by code_simp
  note T = order_reads_owner_only [where d = db0 and u = carol and r = alice_order
      and e = env0 and a = "Some ''Bearer tokxxx''"]
  have r1: "get_order db0 carol (order_id alice_order) = (404, Msg ''Order not found'')"
    using T a b c by blast
  have r2: "route_get_order env0 db0 (Some ''Bearer tokxxx'') (order_id alice_order)
              = (db0, (404, Msg ''Order not found''))"
    using T a b c t by blast
  from r1 r2 i b c r t g l l' show ?thesis by simp
qed

text \<open>
  Claim C7. For a stored order, a requester who is neither an admin nor the owner is
  answered 403 and the store is returned as it was; the answer is 403 exactly when the
  requester is neither. Through the mounted route an authenticated requester of that
  kind gets the 403, and 401 is the answer exactly when \<open>authenticate\<close> fails.
\<close>

theorem order_status_forbidden:
  assumes "order_findById (orders d) i = Some r"
  shows "(obj_get (user_fields u) ''role'' \<noteq> JStr ''admin'' \<and> order_user r \<noteq> user_id u
            \<longrightarrow> put_order_status e d u i body = (d, (403, Msg ''Not authorized'')))
       \<and> ((fst (snd (put_order_status e d u i body)) \<noteq> 403)
            = (obj_get (user_fields u) ''role'' = JStr ''admin'' \<or> order_user r = user_id u))
       \<and> ((authenticate e d a :: oid order response + user) = Inr u
            \<and> obj_get (user_fields u) ''role'' \<noteq> JStr ''admin'' \<and> order_user r \<noteq> user_id u
            \<longrightarrow> route_put_order_status e d a i body = (d, (403, Msg ''Not authorized'')))
       \<and> ((fst (snd (route_put_order_status e d a i body)) = 401)
            = (\<exists>x. (authenticate e d a :: oid order response + user) = Inl x))"
proof (intro conjI impI)
  show "obj_get (user_fields u) ''role'' \<noteq> JStr ''admin'' \<and> order_user r \<noteq> user_id u
          \<Longrightarrow> put_order_status e d u i body = (d, (403, Msg ''Not authorized''))"
    using assms by (simp add: put_order_status_def)
next
  show "(fst (snd (put_order_status e d u i body)) \<noteq> 403)
            = (obj_get (user_fields u) ''role'' = JStr ''admin'' \<or> order_user r = user_id u)"
    using assms by (auto simp: put_order_status_def Let_def split: option.splits)
next
  show "(authenticate e d a :: oid order response + user) = Inr u
            \<and> obj_get (user_fields u) ''role'' \<noteq> JStr ''admin'' \<and> order_user r \<noteq> user_id u
         \<Longrightarrow> route_put_order_status e d a i body = (d, (403, Msg ''Not authorized''))"
    using assms
    by (simp add: route_put_order_status_def with_authenticate_def put_order_status_def)
next
  have st: "\<And>v. fst (snd (put_order_status e d v i body)) \<noteq> 401"
    using assms by (auto simp: put_order_status_def Let_def split: option.splits)
  have un: "\<And>x. (authenticate e d a :: oid order response + user) = Inl x \<Longrightarrow> fst x = 401"
    by (auto simp: authenticate_def split: option.splits if_splits)
  show "(fst (snd (route_put_order_status e d a i body)) = 401)
            = (\<exists>x. (authenticate e d a :: oid order response + user) = Inl x)"
  proof (cases "authenticate e d a :: oid order response + user")
    case (Inl x)
    then show ?thesis using un [OF Inl]
      by (simp add: route_put_order_status_def with_authenticate_def)
  next
    case (Inr v)
    then show ?thesis using st [of v]
      by (simp add: route_put_order_status_def with_authenticate_def)
  qed
qed

theorem order_status_forbidden_witness:
  "order_findById (orders db0) 100 = Some alice_order
   \<and> obj_get (user_fields bob) ''role'' \<noteq> JStr ''admin''
   \<and> order_user alice_order \<noteq> user_id bob
   \<and> put_order_status env0 db0 bob 100 [(''orderStatus'', JStr ''shipped'')]
       = (db0, (403, Msg ''Not authorized''))
   \<and> (authenticate env0 db0 (Some ''Bearer tokxx'') :: oid order response + user) = Inr bob
   \<and> route_put_order_status env0 db0 (Some ''Bearer tokxx'') 100 [(''orderStatus'', JStr ''shipped'')]
       = (db0, (403, Msg ''Not authorized''))
   \<and> fst (snd (put_order_status env0 db0 carol 100 [(''orderStatus'', JStr ''shipped'')])) = 200
   \<and> fst (snd (put_order_status env0 db0 alice 100 [(''orderStatus'', JStr ''cancelled'')])) = 200
   \<and> fst (snd (route_put_order_status env0 db0 None 100 [(''orderStatus'', JStr ''shipped'')])) = 401"
proof -
  have a: "order_findById (orders db0) 100 = Some alice_order" by code_simp
  have b: "obj_get (user_fields bob) ''role'' \<noteq> JStr ''admin''" by code_simp
  have c: "order_user alice_order \<noteq> user_id bob" by code_simp
  have d: "fst (snd (put_order_status env0 db0 carol 100 [(''orderStatus'', JStr ''shipped'')])) = 200"
    by code_simp
  have d': "fst (snd (put_order_status env0 db0 alice 100 [(''orderStatus'', JStr ''cancelled'')])) = 200"
    by code_simp
  have t: "(authenticate env0 db0 (Some ''Bearer tokxx'') :: oid order response + user) = Inr bob"
    by code_simp
  have u: "(authenticate env0 db0 None :: oid order response + user)
             = Inl (401, Msg ''Authentication required'')"
    by code_simp
  note T = order_status_forbidden [OF a, where u = bob and e = env0
        and body = "[(''orderStatus'', JStr ''shipped'')]"]
  have r1: "put_order_status env0 db0 bob 100 [(''orderStatus'', JStr ''shipped'')]
       = (db0, (403, Msg ''Not authorized''))"
    using T b c by blast
  have r2: "route_put_order_status env0 db0 (Some ''Bearer tokxx'') 100
              [(''orderStatus'', JStr ''shipped'')] = (db0, (403, Msg ''Not authorized''))"
    using T [where a = "Some ''Bearer tokxx''"] b c t by blast
  have r3: "fst (snd (route_put_order_status env0 db0 None 100
              [(''orderStatus'', JStr ''shipped'')])) = 401"
    using T [where a = None] u by blast
  from a b c d d' t r1 r2 r3 show ?thesis by blast
qed

section \<open>Checkout\<close>

lemma order_lines_sound:
  "order_lines ents acc = Some (its, amt) \<Longrightarrow>
     list_all2 (\<lambda>ci oi. \<exists>p. ci_product ci = Some p
                  \<and> oi = \<lparr>oi_product = product_id p, oi_name = product_name p,
                          oi_image = image p, oi_price = to_double (new_price p),
                          oi_quantity = quantity ci\<rparr>) ents its
     \<and> amt = foldl (\<lambda>t oi. num_add t (num_mul (oi_price oi) (to_double (of_int (oi_quantity oi)))))
               acc its"
proof (induction ents arbitrary: acc its amt)
  case Nil
  then show ?case by simp
next
  case (Cons ci ents)
  from Cons.prems obtain p where p: "ci_product ci = Some p"
    by (cases "ci_product ci") simp_all
  from Cons.prems p obtain its' where
    rest: "order_lines ents
             (num_add acc (num_mul (to_double (new_price p)) (to_double (of_int (quantity ci)))))
           = Some (its', amt)"
    and its: "its = \<lparr>oi_product = product_id p, oi_name = product_name p,
                     oi_image = image p, oi_price = to_double (new_price p),
                     oi_quantity = quantity ci\<rparr> # its'"
    by (auto simp: Let_def split: option.splits)
  from Cons.IH [OF rest] p its show ?case by simp
qed

lemma populate_cart_items:
  "list_all2 P (cart_items (populate_cart ps c)) its
   = list_all2 (\<lambda>ci. P \<lparr>ci_product = product_findById ps (ci_product ci), quantity = quantity ci\<rparr>)
       (cart_items c) its"
  by (simp add: populate_cart_def list_all2_map1)

lemma post_order_body:
  assumes "obj_get b' ''shippingAddress'' = obj_get b ''shippingAddress''"
    and "obj_get b' ''paymentMethod'' = obj_get b ''paymentMethod''"
  shows "post_order e d u b' = post_order e d u b"
  using assms by (simp add: post_order_def)

lemma post_order_no_address:
  "\<not> truthy (obj_get body ''shippingAddress'')
   \<Longrightarrow> post_order e d u body = (d, (400, Msg ''Shipping address is required''))"
  by (simp add: post_order_def)

lemma post_order_no_cart:
  "truthy (obj_get body ''shippingAddress'')
   \<Longrightarrow> cart_findOne_user (carts d) (user_id u) = None
   \<Longrightarrow> post_order e d u body = (d, (400, Msg ''Cart is empty''))"
  by (simp add: post_order_def)

lemma post_order_empty_cart:
  "truthy (obj_get body ''shippingAddress'')
   \<Longrightarrow> cart_findOne_user (carts d) (user_id u) = Some cart
   \<Longrightarrow> cart_items cart = []
   \<Longrightarrow> post_order e d u body = (d, (400, Msg ''Cart is empty''))"
  by (simp add: post_order_def)

lemma post_order_null_product:
  "truthy (obj_get body ''shippingAddress'')
   \<Longrightarrow> cart_findOne_user (carts d) (user_id u) = Some cart
   \<Longrightarrow> cart_items cart \<noteq> []
   \<Longrightarrow> order_lines (cart_items (populate_cart (products d) cart)) (Finite 0) = None
   \<Longrightarrow> post_order e d u body = (d, (400, Msg null_property_message))"
  by (simp add: post_order_def)

lemma post_order_order_fails:
  "truthy (obj_get body ''shippingAddress'')
   \<Longrightarrow> cart_findOne_user (carts d) (user_id u) = Some cart
   \<Longrightarrow> cart_items cart \<noteq> []
   \<Longrightarrow> order_lines (cart_items (populate_cart (products d) cart)) (Finite 0) = Some (its, amt)
   \<Longrightarrow> order_save_error e (new_Order e d u its amt (obj_get body ''shippingAddress'')
          (obj_get body ''paymentMethod'')) = Some m
   \<Longrightarrow> post_order e d u body = (d, (400, Msg m))"
  by (simp add: post_order_def)

lemma post_order_cart_fails:
  "truthy (obj_get body ''shippingAddress'')
   \<Longrightarrow> cart_findOne_user (carts d) (user_id u) = Some cart
   \<Longrightarrow> cart_items cart \<noteq> []
   \<Longrightarrow> order_lines (cart_items (populate_cart (products d) cart)) (Finite 0) = Some (its, amt)
   \<Longrightarrow> ord = new_Order e d u its amt (obj_get body ''shippingAddress'')
          (obj_get body ''paymentMethod'')
   \<Longrightarrow> order_save_error e ord = None
   \<Longrightarrow> cart_save_error e (cart\<lparr>cart_items := []\<rparr>) = Some m
   \<Longrightarrow> post_order e d u body = (d\<lparr>orders := orders d @ [ord]\<rparr>, (400, Msg m))"
  by (simp add: post_order_def Let_def)

lemma post_order_ok:
  "truthy (obj_get body ''shippingAddress'')
   \<Longrightarrow> cart_findOne_user (carts d) (user_id u) = Some cart
   \<Longrightarrow> cart_items cart \<noteq> []
   \<Longrightarrow> order_lines (cart_items (populate_cart (products d) cart)) (Finite 0) = Some (its, amt)
   \<Longrightarrow> ord = new_Order e d u its amt (obj_get body ''shippingAddress'')
          (obj_get body ''paymentMethod'')
   \<Longrightarrow> order_save_error e ord = None
   \<Longrightarrow> cart_save_error e (cart\<lparr>cart_items := []\<rparr>) = None
   \<Longrightarrow> post_order e d u body
       = (d\<lparr>orders := orders d @ [ord],
            carts := replace_first (\<lambda>c. cart_user c = cart_user cart)
                       (cart\<lparr>cart_items := []\<rparr>) (carts d)\<rparr>,
          (201, Json ord))"
  by (simp add: post_order_def Let_def)

text \<open>The three ways a request can end.\<close>

lemma post_order_outcome:
  obtains (aborted) m where "post_order e d u body = (d, (400, Msg m))"
  | (order_only) cart its amt m where
      "cart_findOne_user (carts d) (user_id u) = Some cart"
      "order_lines (cart_items (populate_cart (products d) cart)) (Finite 0) = Some (its, amt)"
      "post_order e d u body
         = (d\<lparr>orders := orders d @ [new_Order e d u its amt (obj_get body ''shippingAddress'')
                                        (obj_get body ''paymentMethod'')]\<rparr>,
            (400, Msg m))"
  | (created) cart its amt where
      "cart_findOne_user (carts d) (user_id u) = Some cart"
      "order_lines (cart_items (populate_cart (products d) cart)) (Finite 0) = Some (its, amt)"
      "post_order e d u body
         = (d\<lparr>orders := orders d @ [new_Order e d u its amt (obj_get body ''shippingAddress'')
                                        (obj_get body ''paymentMethod'')],
              carts := replace_first (\<lambda>c. cart_user c = cart_user cart)
                         (cart\<lparr>cart_items := []\<rparr>) (carts d)\<rparr>,
            (201, Json (new_Order e d u its amt (obj_get body ''shippingAddress'')
                          (obj_get body ''paymentMethod''))))"
proof (cases "truthy (obj_get body ''shippingAddress'')")
  case False
  from post_order_no_address [OF False] show ?thesis by (rule aborted)
next
  case addr: True
  show ?thesis
  proof (cases "cart_findOne_user (carts d) (user_id u)")
    case None
    from post_order_no_cart [OF addr None] show ?thesis by (rule aborted)
  next
    case c: (Some cart)
    show ?thesis
    proof (cases "cart_items cart = []")
      case True
      from post_order_empty_cart [OF addr c True] show ?thesis by (rule aborted)
    next
      case ne: False
      show ?thesis
      proof (cases "order_lines (cart_items (populate_cart (products d) cart)) (Finite 0)")
        case None
        from post_order_null_product [OF addr c ne None] show ?thesis by (rule aborted)
      next
        case (Some pr)
        obtain its amt where "pr = (its, amt)" by (cases pr)
        with Some have l: "order_lines (cart_items (populate_cart (products d) cart)) (Finite 0)
                             = Some (its, amt)" by simp
        show ?thesis
        proof (cases "order_save_error e (new_Order e d u its amt (obj_get body ''shippingAddress'')
                        (obj_get body ''paymentMethod''))")
          case (Some m)
          from post_order_order_fails [OF addr c ne l Some] show ?thesis by (rule aborted)
        next
          case saved: None
          show ?thesis
          proof (cases "cart_save_error e (cart\<lparr>cart_items := []\<rparr>)")
            case (Some m)
            from c l post_order_cart_fails [OF addr c ne l refl saved Some]
            show ?thesis by (rule order_only)
          next
            case None
            from c l post_order_ok [OF addr c ne l refl saved None]
            show ?thesis by (rule created)
          qed
        qed
      qed
    qed
  qed
qed

lemma post_order_created:
  assumes "post_order e d u body = (d', (201, Json ord))"
  shows "\<exists>cart its amt. cart_findOne_user (carts d) (user_id u) = Some cart
           \<and> order_lines (cart_items (populate_cart (products d) cart)) (Finite 0) = Some (its, amt)
           \<and> order_items ord = its \<and> totalAmount ord = amt \<and> order_user ord = user_id u
           \<and> orders d' = orders d @ [ord]"
proof (cases rule: post_order_outcome [of e d u body])
  case (aborted m)
  with assms show ?thesis by simp
next
  case (order_only cart its amt m)
  with assms show ?thesis by simp
next
  case (created cart its amt)
  from created(3) assms
  have o: "ord = new_Order e d u its amt (obj_get body ''shippingAddress'')
                (obj_get body ''paymentMethod'')"
    and s: "orders d' = orders d @ [ord]"
    by auto
  from o have "order_items ord = its" and "totalAmount ord = amt" and "order_user ord = user_id u"
    by (simp_all add: new_Order_def)
  with created(1,2) s show ?thesis by blast
qed

lemma foldl_all2:
  "list_all2 (\<lambda>x y. \<forall>t. g t x = f t y) xs ys \<Longrightarrow> foldl g a xs = foldl f a ys"
  by (induction arbitrary: a rule: list_all2_induct) simp_all

text \<open>
  Whole numbers below \<open>2^53\<close> are doubles, and the products and sums of such numbers
  that stay below \<open>2^53\<close> are exact.
\<close>

lemma bit_length_bounds:
  "0 < n \<Longrightarrow> 1 \<le> bit_length n \<and> 2 ^ nat (bit_length n - 1) \<le> n \<and> n < 2 ^ nat (bit_length n)"
proof (induction n rule: bit_length.induct)
  case (1 n)
  show ?case
  proof (cases "n div 2 = 0")
    case True
    with 1(2) have "n = 1" by presburger
    then show ?thesis by (simp add: bit_length.simps [of 1] bit_length.simps [of 0])
  next
    case False
    with 1(2) have pos: "0 < n div 2" by presburger
    from 1(2) have "\<not> n \<le> 0" by simp
    from 1(1) [OF this pos] have
      b1: "1 \<le> bit_length (n div 2)"
      and lo: "2 ^ nat (bit_length (n div 2) - 1) \<le> n div 2"
      and hi: "n div 2 < 2 ^ nat (bit_length (n div 2))"
      by simp_all
    from 1(2) have bl: "bit_length n = 1 + bit_length (n div 2)"
      by (simp add: bit_length.simps [of n])
    from b1 have e: "nat (bit_length (n div 2)) = Suc (nat (bit_length (n div 2) - 1))" by simp
    have "(2::int) ^ nat (bit_length (n div 2)) = 2 * 2 ^ nat (bit_length (n div 2) - 1)"
      by (subst e) simp
    also have "\<dots> \<le> 2 * (n div 2)" using lo by simp
    also have "\<dots> \<le> n" by presburger
    finally have lo': "2 ^ nat (bit_length (n div 2)) \<le> n" .
    from hi have "n div 2 + 1 \<le> 2 ^ nat (bit_length (n div 2))" by simp
    then have "2 * (n div 2) + 2 \<le> 2 * 2 ^ nat (bit_length (n div 2))" by simp
    moreover have "n < 2 * (n div 2) + 2" by presburger
    ultimately have hi': "n < 2 * 2 ^ nat (bit_length (n div 2))" by simp
    from b1 have e2: "nat (1 + bit_length (n div 2)) = Suc (nat (bit_length (n div 2)))" by simp
    from b1 lo' hi' show ?thesis unfolding bl e2 by simp
  qed
qed

lemma round_half_even_int: "round_half_even (of_int z) = z"
  by (simp add: round_half_even_def)

lemma binary_exponent_int:
  assumes "0 < n"
  shows "binary_exponent (of_int n) = bit_length n - 1"
proof -
  have q: "quotient_of (of_int n) = (n, 1)" by simp
  have b1: "bit_length 1 = 1" by (simp add: bit_length.simps [of 1] bit_length.simps [of 0])
  from bit_length_bounds [OF assms] have b: "1 \<le> bit_length n"
    and lo: "2 ^ nat (bit_length n - 1) \<le> n" by simp_all
  from lo have "((2::rat) ^ nat (bit_length n - 1)) \<le> of_int n"
    by (metis of_int_le_iff of_int_numeral of_int_power)
  with b have "pow2 (bit_length n - 1) \<le> of_int n" by (simp add: pow2_def)
  then show ?thesis by (simp add: binary_exponent_def q b1 Let_def)
qed

lemma pow2_nonpos: "k \<le> 0 \<Longrightarrow> pow2 k = 1 / 2 ^ nat (- k)"
  by (cases "k = 0") (simp_all add: pow2_def)

lemma to_double_int:
  assumes "0 < n" and "n < 2 ^ 53"
  shows "to_double (of_int n) = Finite (of_int n)"
proof -
  define e where "e = bit_length n - 1"
  from bit_length_bounds [OF assms(1)] have e0: "0 \<le> e" and lo: "2 ^ nat e \<le> n"
    by (simp_all add: e_def)
  have lt: "(2::int) ^ nat e < 2 ^ 53" by (rule le_less_trans [OF lo assms(2)])
  have "nat e < 53" by (rule power_less_imp_less_exp [OF _ lt]) simp
  with e0 have e52: "e \<le> 52" by simp
  have be: "binary_exponent (of_int n) = e"
    using binary_exponent_int [OF assms(1)] by (simp add: e_def)
  from e0 e52 have p: "max (e - 52) (- 1074) = e - 52" by simp
  from e52 have pw: "pow2 (e - 52) = 1 / 2 ^ nat (52 - e)"
    using pow2_nonpos [of "e - 52"] by simp
  have q: "(of_int n :: rat) / pow2 (e - 52) = of_int (n * 2 ^ nat (52 - e))"
    by (simp add: pw)
  have v: "of_int (round_half_even ((of_int n :: rat) / pow2 (e - 52))) * pow2 (e - 52)
             = (of_int n :: rat)"
    unfolding q round_half_even_int by (simp add: pw)
  from assms(1) have a: "\<bar>of_int n :: rat\<bar> = of_int n" and nz: "(of_int n :: rat) \<noteq> 0"
    and pos: "0 < (of_int n :: rat)"
    by simp_all
  from e52 have no: "\<not> 1024 \<le> e" by simp
  show ?thesis
    unfolding to_double_def Let_def a be p v using nz pos no by simp
qed

lemma to_double_whole: "0 \<le> n \<Longrightarrow> n < 2 ^ 53 \<Longrightarrow> to_double (of_int n) = Finite (of_int n)"
  using to_double_int [of n] by (cases "n = 0") (simp_all add: to_double_def)

lemma num_mul_whole:
  assumes "0 \<le> k" and "k < 2 ^ 53" and "0 \<le> q" and "q < 2 ^ 53" and "k * q < 2 ^ 53"
  shows "num_mul (to_double (of_int k)) (to_double (of_int q)) = Finite (of_int (k * q))"
proof -
  from assms(1,3) have "0 \<le> k * q" by simp
  from to_double_whole [OF this assms(5)] to_double_whole [OF assms(1,2)]
    to_double_whole [OF assms(3,4)]
  show ?thesis by simp
qed

lemma num_add_whole:
  assumes "0 \<le> a" and "0 \<le> b" and "a + b < 2 ^ 53"
  shows "num_add (Finite (of_int a)) (Finite (of_int b)) = Finite (of_int (a + b))"
proof -
  from assms(1,2) have "0 \<le> a + b" by simp
  from to_double_whole [OF this assms(3)] show ?thesis by simp
qed

lemma order_lines_whole:
  assumes "order_lines ents (Finite (of_int acc)) = Some (its, amt)"
    and "\<forall>ci \<in> set ents. case ci_product ci of
           None \<Rightarrow> True
         | Some p \<Rightarrow> of_int \<lfloor>new_price p\<rfloor> = new_price p \<and> 0 \<le> new_price p
                      \<and> new_price p < 2 ^ 53 \<and> 0 \<le> quantity ci \<and> quantity ci < 2 ^ 53"
    and "0 \<le> acc"
    and "of_int acc + sum_list (map (\<lambda>ci. case ci_product ci of
                                             None \<Rightarrow> 0
                                           | Some p \<Rightarrow> new_price p * of_int (quantity ci)) ents)
           < 2 ^ 53"
  shows "amt = Finite (of_int acc + sum_list (map (\<lambda>ci. case ci_product ci of
                                             None \<Rightarrow> 0
                                           | Some p \<Rightarrow> new_price p * of_int (quantity ci)) ents))"
  using assms
proof (induction ents arbitrary: acc its amt)
  case Nil
  then show ?case by simp
next
  case (Cons ci ents)
  let ?line = "\<lambda>ci. case ci_product ci of
                       None \<Rightarrow> 0
                     | Some p \<Rightarrow> new_price p * rat_of_int (quantity ci)"
  from Cons.prems(1) obtain p where p: "ci_product ci = Some p"
    by (cases "ci_product ci") simp_all
  define k where "k = \<lfloor>new_price p\<rfloor>"
  define q where "q = quantity ci"
  have "case ci_product ci of
           None \<Rightarrow> True
         | Some p \<Rightarrow> of_int \<lfloor>new_price p\<rfloor> = new_price p \<and> 0 \<le> new_price p
                      \<and> new_price p < 2 ^ 53 \<and> 0 \<le> quantity ci \<and> quantity ci < 2 ^ 53"
    using Cons.prems(2) by (rule bspec) simp
  then have h: "of_int k = new_price p \<and> 0 \<le> new_price p
                      \<and> new_price p < 2 ^ 53 \<and> 0 \<le> q \<and> q < 2 ^ 53"
    unfolding p option.case k_def q_def .
  from h have pk: "new_price p = of_int k" by (rule conjunct1 [THEN sym])
  from h have p0: "0 \<le> new_price p" and p53: "new_price p < 2 ^ 53"
    and q0: "0 \<le> q" and q53: "q < 2 ^ 53"
    by blast+
  from p0 have k0: "0 \<le> k" unfolding pk by (simp only: of_int_0_le_iff)
  from p53 have k53: "k < 2 ^ 53" unfolding pk
    by (metis of_int_less_iff of_int_numeral of_int_power)
  have nonneg: "0 \<le> sum_list (map ?line ents)"
  proof (rule sum_list_nonneg)
    fix x
    assume "x \<in> set (map ?line ents)"
    then obtain c where c: "c \<in> set ents" and x: "x = ?line c" by auto
    from Cons.prems(2) c show "0 \<le> x" unfolding x
      by (cases "ci_product c") (auto simp: Ball_def)
  qed
  from p pk have t: "?line ci = of_int (k * q)" by (simp add: q_def)
  from Cons.prems(4) t have tot: "rat_of_int (acc + k * q) + sum_list (map ?line ents) < 2 ^ 53"
    by simp
  with nonneg have "rat_of_int (acc + k * q) < 2 ^ 53" by linarith
  then have s53: "acc + k * q < 2 ^ 53" by (metis of_int_less_iff of_int_numeral of_int_power)
  from k0 q0 have kq0: "0 \<le> k * q" by simp
  with Cons.prems(3) s53 have kq53: "k * q < 2 ^ 53" by linarith
  have m: "num_mul (to_double (new_price p)) (to_double (of_int (quantity ci)))
             = Finite (of_int (k * q))"
    unfolding pk q_def [symmetric] by (rule num_mul_whole [OF k0 k53 q0 q53 kq53])
  have a: "num_add (Finite (of_int acc)) (Finite (of_int (k * q))) = Finite (of_int (acc + k * q))"
    by (rule num_add_whole [OF Cons.prems(3) kq0 s53])
  have step: "order_lines (ci # ents) (Finite (of_int acc))
                = (case order_lines ents (Finite (of_int (acc + k * q))) of
                     None \<Rightarrow> None
                   | Some (items, amount') \<Rightarrow>
                       Some (\<lparr>oi_product = product_id p, oi_name = product_name p,
                              oi_image = image p, oi_price = to_double (new_price p),
                              oi_quantity = quantity ci\<rparr> # items, amount'))"
    by (simp only: order_lines.simps p option.case Let_def m a)
  from Cons.prems(1) [unfolded step] obtain its' where
    rest: "order_lines ents (Finite (of_int (acc + k * q))) = Some (its', amt)"
    by (cases "order_lines ents (Finite (of_int (acc + k * q)))") auto
  from Cons.prems(2) have all: "\<forall>ci \<in> set ents. case ci_product ci of
           None \<Rightarrow> True
         | Some p \<Rightarrow> of_int \<lfloor>new_price p\<rfloor> = new_price p \<and> 0 \<le> new_price p
                      \<and> new_price p < 2 ^ 53 \<and> 0 \<le> quantity ci \<and> quantity ci < 2 ^ 53"
    by simp
  from Cons.prems(3) kq0 have acc0: "0 \<le> acc + k * q" by simp
  from Cons.IH [OF rest all acc0 tot] t show ?case by simp
qed

lemma order_lines_whole_cart:
  assumes "order_lines (cart_items (populate_cart ps c)) (Finite 0) = Some (its, amt)"
    and "\<forall>ci \<in> set (cart_items c). case product_findById ps (ci_product ci) of
           None \<Rightarrow> True
         | Some p \<Rightarrow> of_int \<lfloor>new_price p\<rfloor> = new_price p \<and> 0 \<le> new_price p
                      \<and> new_price p < 2 ^ 53 \<and> 0 \<le> quantity ci \<and> quantity ci < 2 ^ 53"
    and "sum_list (map (\<lambda>ci. case product_findById ps (ci_product ci) of
                               None \<Rightarrow> 0
                             | Some p \<Rightarrow> new_price p * of_int (quantity ci)) (cart_items c))
           < 2 ^ 53"
  shows "amt = Finite (sum_list (map (\<lambda>ci. case product_findById ps (ci_product ci) of
                                             None \<Rightarrow> 0
                                           | Some p \<Rightarrow> new_price p * of_int (quantity ci))
                                  (cart_items c)))"
proof -
  define f :: "oid cart_item \<Rightarrow> product option cart_item" where
    "f = (\<lambda>ci. \<lparr>ci_product = product_findById ps (ci_product ci), quantity = quantity ci\<rparr>)"
  have items: "cart_items (populate_cart ps c) = map f (cart_items c)"
    by (simp add: populate_cart_def f_def)
  have s: "map (\<lambda>ci. case ci_product ci of
                        None \<Rightarrow> 0
                      | Some p \<Rightarrow> new_price p * rat_of_int (quantity ci)) (map f (cart_items c))
           = map (\<lambda>ci. case product_findById ps (ci_product ci) of
                          None \<Rightarrow> 0
                        | Some p \<Rightarrow> new_price p * of_int (quantity ci)) (cart_items c)"
    by (simp add: f_def comp_def split: option.splits)
  have l: "order_lines (map f (cart_items c)) (Finite (of_int 0)) = Some (its, amt)"
    using assms(1) by (simp add: items)
  have a: "\<forall>ci \<in> set (map f (cart_items c)). case ci_product ci of
           None \<Rightarrow> True
         | Some p \<Rightarrow> of_int \<lfloor>new_price p\<rfloor> = new_price p \<and> 0 \<le> new_price p
                      \<and> new_price p < 2 ^ 53 \<and> 0 \<le> quantity ci \<and> quantity ci < 2 ^ 53"
  proof
    fix x
    assume "x \<in> set (map f (cart_items c))"
    then obtain ci where ci: "ci \<in> set (cart_items c)" and x: "x = f ci" by auto
    from assms(2) ci have "case product_findById ps (ci_product ci) of
           None \<Rightarrow> True
         | Some p \<Rightarrow> of_int \<lfloor>new_price p\<rfloor> = new_price p \<and> 0 \<le> new_price p
                      \<and> new_price p < 2 ^ 53 \<and> 0 \<le> quantity ci \<and> quantity ci < 2 ^ 53"
      by (rule bspec)
    then show "case ci_product x of
           None \<Rightarrow> True
         | Some p \<Rightarrow> of_int \<lfloor>new_price p\<rfloor> = new_price p \<and> 0 \<le> new_price p
                      \<and> new_price p < 2 ^ 53 \<and> 0 \<le> quantity x \<and> quantity x < 2 ^ 53"
      unfolding x f_def by (simp only: cart_item.simps split: option.splits)
  qed
  have b: "rat_of_int 0 + sum_list (map (\<lambda>ci. case ci_product ci of
                        None \<Rightarrow> 0
                      | Some p \<Rightarrow> new_price p * rat_of_int (quantity ci)) (map f (cart_items c)))
             < 2 ^ 53"
    unfolding s using assms(3) by simp
  from order_lines_whole [OF l a _ b] show ?thesis unfolding s by simp
qed

text \<open>
  Claim C1 as stated fails on the arithmetic: \<open>totalAmount\<close> is computed with the
  operators \<open>*\<close> and \<open>+\<close> of JavaScript Numbers, which round. For a cart that holds 3
  of a product priced 0.1 the order's \<open>totalAmount\<close> is 0.30000000000000004, the
  double above 0.3: it is neither the sum of price times quantity, 3/10, nor the
  Number nearest to it.
\<close>

theorem checkout_total_rounding_counterexample:
  "\<exists>d' ord. post_order env0 db1 bob [(''shippingAddress'', address0)] = (d', (201, Json ord))
     \<and> cart_findOne_user (carts db1) (user_id bob)
         = Some \<lparr>cart_user = 2, cart_items = [\<lparr>ci_product = 12, quantity = 3\<rparr>]\<rparr>
     \<and> product_findById (products db1) 12 = Some p3
     \<and> new_price p3 = 1 / 10
     \<and> length (order_items ord) = 1
     \<and> totalAmount ord = Finite (1351079888211149 / 4503599627370496)
     \<and> to_double (new_price p3 * 3) = Finite (5404319552844595 / 18014398509481984)
     \<and> totalAmount ord \<noteq> to_double (new_price p3 * 3)
     \<and> totalAmount ord \<noteq> Finite (new_price p3 * 3)"
proof -
  define ord where "ord =
     \<lparr>order_id = 101, order_user = 2,
      order_items = [\<lparr>oi_product = 12::nat, oi_name = ''Ribbon'', oi_image = ''/assets/ribbon.webp'',
                      oi_price = Finite (3602879701896397 / 36028797018963968),
                      oi_quantity = 3\<rparr>],
      totalAmount = Finite (1351079888211149 / 4503599627370496),
      shippingAddress = address0,
      paymentMethod = JStr ''cash_on_delivery'',
      paymentStatus = JStr ''pending'', orderStatus = JStr ''pending'', createdAt = 7\<rparr>"
  have "snd (post_order env0 db1 bob [(''shippingAddress'', address0)]) = (201, Json ord)"
    unfolding ord_def by code_simp
  then have h: "post_order env0 db1 bob [(''shippingAddress'', address0)]
                  = (fst (post_order env0 db1 bob [(''shippingAddress'', address0)]), (201, Json ord))"
    by (simp add: prod_eq_iff)
  have c: "cart_findOne_user (carts db1) (user_id bob)
         = Some \<lparr>cart_user = 2, cart_items = [\<lparr>ci_product = 12, quantity = 3\<rparr>]\<rparr>"
    by code_simp
  have p: "product_findById (products db1) 12 = Some p3" by code_simp
  have q: "new_price p3 = 1 / 10" by code_simp
  have n: "length (order_items ord) = 1" unfolding ord_def by simp
  have t: "totalAmount ord = Finite (1351079888211149 / 4503599627370496)"
    unfolding ord_def by simp
  have r: "to_double (new_price p3 * 3) = Finite (5404319552844595 / 18014398509481984)"
    by code_simp
  have x: "Finite (1351079888211149 / 4503599627370496) \<noteq> to_double (new_price p3 * 3)"
    by code_simp
  have y: "Finite (1351079888211149 / 4503599627370496) \<noteq> Finite (new_price p3 * 3)"
    by code_simp
  from x t have x': "totalAmount ord \<noteq> to_double (new_price p3 * 3)" by simp
  from y t have y': "totalAmount ord \<noteq> Finite (new_price p3 * 3)" by simp
  from h c p q n t r x' y' show ?thesis by blast
qed

text \<open>
  Claim C1, amended. When \<open>POST /orders\<close> answers 201, the order it answers with is
  the one it appended to the stored orders; it belongs to the requester and holds one
  line item per entry of the requester's cart, in the cart's order, each with the name,
  image and price that the catalog holds now for the entry's product and with the
  entry's quantity. Its \<open>totalAmount\<close> is computed from those alone, in Number
  arithmetic: starting from 0, the rounded product of price and quantity of each entry
  is added in turn, each sum rounded. When the prices and the quantities of the
  entries are whole numbers from 0 to below \<open>2^53\<close> and the sum of price times
  quantity over the entries is below \<open>2^53\<close>, nothing is rounded and \<open>totalAmount\<close>
  is that sum. Any body with the same \<open>shippingAddress\<close> and \<open>paymentMethod\<close> gets
  the same store and the same order, so a \<open>totalAmount\<close> in the body plays no part.
\<close>

theorem checkout_total:
  assumes "post_order e d u body = (d', (201, Json ord))"
  shows "\<exists>cart. cart_findOne_user (carts d) (user_id u) = Some cart
           \<and> orders d' = orders d @ [ord]
           \<and> order_user ord = user_id u
           \<and> length (order_items ord) = length (cart_items cart)
           \<and> list_all2 (\<lambda>ci oi. \<exists>p. product_findById (products d) (ci_product ci) = Some p
                  \<and> oi = \<lparr>oi_product = product_id p, oi_name = product_name p,
                          oi_image = image p, oi_price = to_double (new_price p),
                          oi_quantity = quantity ci\<rparr>) (cart_items cart) (order_items ord)
           \<and> totalAmount ord
               = foldl (\<lambda>t oi. num_add t (num_mul (oi_price oi) (to_double (of_int (oi_quantity oi)))))
                   (Finite 0) (order_items ord)
           \<and> totalAmount ord
               = foldl (\<lambda>t ci. case product_findById (products d) (ci_product ci) of
                                 None \<Rightarrow> t
                               | Some p \<Rightarrow> num_add t (num_mul (to_double (new_price p))
                                                        (to_double (of_int (quantity ci)))))
                   (Finite 0) (cart_items cart)
           \<and> ((\<forall>ci \<in> set (cart_items cart).
                   case product_findById (products d) (ci_product ci) of
                     None \<Rightarrow> True
                   | Some p \<Rightarrow> of_int \<lfloor>new_price p\<rfloor> = new_price p \<and> 0 \<le> new_price p
                                \<and> new_price p < 2 ^ 53 \<and> 0 \<le> quantity ci
                                \<and> quantity ci < 2 ^ 53)
                \<and> sum_list (map (\<lambda>ci. case product_findById (products d) (ci_product ci) of
                                          None \<Rightarrow> 0
                                        | Some p \<Rightarrow> new_price p * of_int (quantity ci))
                              (cart_items cart)) < 2 ^ 53
              \<longrightarrow> totalAmount ord
                    = Finite (sum_list (map (\<lambda>ci. case product_findById (products d)
                                                         (ci_product ci) of
                                                  None \<Rightarrow> 0
                                                | Some p \<Rightarrow> new_price p * of_int (quantity ci))
                                        (cart_items cart))))
           \<and> (\<forall>body'. obj_get body' ''shippingAddress'' = obj_get body ''shippingAddress''
                     \<and> obj_get body' ''paymentMethod'' = obj_get body ''paymentMethod''
                 \<longrightarrow> post_order e d u body' = (d', (201, Json ord)))"
proof -
  from post_order_created [OF assms] obtain cart its amt where
    c: "cart_findOne_user (carts d) (user_id u) = Some cart"
    and l: "order_lines (cart_items (populate_cart (products d) cart)) (Finite 0) = Some (its, amt)"
    and i: "order_items ord = its" and t: "totalAmount ord = amt"
    and ou: "order_user ord = user_id u"
    and st: "orders d' = orders d @ [ord]"
    by blast
  from order_lines_sound [OF l] have
    a2: "list_all2 (\<lambda>ci oi. \<exists>p. product_findById (products d) (ci_product ci) = Some p
                  \<and> oi = \<lparr>oi_product = product_id p, oi_name = product_name p,
                          oi_image = image p, oi_price = to_double (new_price p),
                          oi_quantity = quantity ci\<rparr>) (cart_items cart) its"
    and s: "amt = foldl (\<lambda>t oi. num_add t (num_mul (oi_price oi)
                                   (to_double (of_int (oi_quantity oi))))) (Finite 0) its"
    by (simp_all add: populate_cart_items)
  from a2 have len: "length its = length (cart_items cart)"
    by (simp add: list_all2_lengthD)
  have b: "\<forall>body'. obj_get body' ''shippingAddress'' = obj_get body ''shippingAddress''
                     \<and> obj_get body' ''paymentMethod'' = obj_get body ''paymentMethod''
                 \<longrightarrow> post_order e d u body' = (d', (201, Json ord))"
  proof (intro allI impI)
    fix body'
    assume "obj_get body' ''shippingAddress'' = obj_get body ''shippingAddress''
              \<and> obj_get body' ''paymentMethod'' = obj_get body ''paymentMethod''"
    then have "post_order e d u body' = post_order e d u body"
      by (intro post_order_body) simp_all
    with assms show "post_order e d u body' = (d', (201, Json ord))" by simp
  qed
  from a2 have "list_all2 (\<lambda>ci oi. \<forall>t.
        (case product_findById (products d) (ci_product ci) of
           None \<Rightarrow> t
         | Some p \<Rightarrow> num_add t (num_mul (to_double (new_price p))
                                  (to_double (of_int (quantity ci)))))
        = num_add t (num_mul (oi_price oi) (to_double (of_int (oi_quantity oi)))))
      (cart_items cart) its"
    by (rule list_all2_mono) auto
  from foldl_all2 [OF this] s have
    s2: "amt = foldl (\<lambda>t ci. case product_findById (products d) (ci_product ci) of
                                 None \<Rightarrow> t
                               | Some p \<Rightarrow> num_add t (num_mul (to_double (new_price p))
                                                        (to_double (of_int (quantity ci)))))
                   (Finite 0) (cart_items cart)"
    by simp
  have x: "(\<forall>ci \<in> set (cart_items cart).
                   case product_findById (products d) (ci_product ci) of
                     None \<Rightarrow> True
                   | Some p \<Rightarrow> of_int \<lfloor>new_price p\<rfloor> = new_price p \<and> 0 \<le> new_price p
                                \<and> new_price p < 2 ^ 53 \<and> 0 \<le> quantity ci
                                \<and> quantity ci < 2 ^ 53)
                \<and> sum_list (map (\<lambda>ci. case product_findById (products d) (ci_product ci) of
                                          None \<Rightarrow> 0
                                        | Some p \<Rightarrow> new_price p * of_int (quantity ci))
                              (cart_items cart)) < 2 ^ 53
              \<longrightarrow> totalAmount ord
                    = Finite (sum_list (map (\<lambda>ci. case product_findById (products d)
                                                         (ci_product ci) of
                                                  None \<Rightarrow> 0
                                                | Some p \<Rightarrow> new_price p * of_int (quantity ci))
                                        (cart_items cart)))"
    unfolding t using order_lines_whole_cart [OF l] by blast
  note a2' = a2 [folded i] and len' = len [folded i] and s' = s [folded i t]
    and s2' = s2 [folded t]
  from c st ou len' a2' s' s2' x b show ?thesis by blast
qed

text \<open>
  The cart of the example: 2 of a product priced 10 and 1 of a product priced 5, with a
  \<open>totalAmount\<close> of 1 in the body.
\<close>

theorem checkout_total_witness:
  "\<exists>d' ord. post_order env0 db0 alice [(''shippingAddress'', address0), (''totalAmount'', JNum 1)]
               = (d', (201, Json ord))
     \<and> cart_findOne_user (carts db0) (user_id alice) = Some alice_cart
     \<and> length (cart_items alice_cart) = 2
     \<and> orders d' = orders db0 @ [ord]
     \<and> length (order_items ord) = 2
     \<and> totalAmount ord = Finite 25
     \<and> post_order env0 db0 alice [(''shippingAddress'', address0)] = (d', (201, Json ord))"
proof -
  define body where "body = [(''shippingAddress'', address0), (''totalAmount'', JNum 1)]"
  define body' where "body' = [(''shippingAddress'', address0)]"
  define ord where "ord =
     \<lparr>order_id = 101, order_user = 1,
      order_items = [\<lparr>oi_product = 10::nat, oi_name = ''Kurti'', oi_image = ''/assets/women1.jfif'',
                      oi_price = Finite 10, oi_quantity = 2\<rparr>,
                     \<lparr>oi_product = 11, oi_name = ''Jeans'', oi_image = ''/assets/men1.webp'',
                      oi_price = Finite 5, oi_quantity = 1\<rparr>],
      totalAmount = Finite 25,
      shippingAddress = address0,
      paymentMethod = JStr ''cash_on_delivery'',
      paymentStatus = JStr ''pending'', orderStatus = JStr ''pending'', createdAt = 7\<rparr>"
  have "snd (post_order env0 db0 alice body) = (201, Json ord)"
    unfolding body_def ord_def by code_simp
  then have h: "post_order env0 db0 alice body = (fst (post_order env0 db0 alice body), (201, Json ord))"
    by (simp add: prod_eq_iff)
  have c: "cart_findOne_user (carts db0) (user_id alice) = Some alice_cart" by code_simp
  have n: "length (cart_items alice_cart) = 2" by code_simp
  have w: "\<forall>ci \<in> set (cart_items alice_cart).
                   case product_findById (products db0) (ci_product ci) of
                     None \<Rightarrow> True
                   | Some p \<Rightarrow> of_int \<lfloor>new_price p\<rfloor> = new_price p \<and> 0 \<le> new_price p
                                \<and> new_price p < 2 ^ 53 \<and> 0 \<le> quantity ci
                                \<and> quantity ci < 2 ^ 53"
    by code_simp
  have s: "sum_list (map (\<lambda>ci. case product_findById (products db0) (ci_product ci) of
                                          None \<Rightarrow> 0
                                        | Some p \<Rightarrow> new_price p * of_int (quantity ci))
                              (cart_items alice_cart)) = 25"
    by code_simp
  have b1: "obj_get body' ''shippingAddress'' = obj_get body ''shippingAddress''"
    unfolding body_def body'_def by code_simp
  have b2: "obj_get body' ''paymentMethod'' = obj_get body ''paymentMethod''"
    unfolding body_def body'_def by code_simp
  from checkout_total [OF h] obtain cart where
    cc: "cart_findOne_user (carts db0) (user_id alice) = Some cart"
    and st: "orders (fst (post_order env0 db0 alice body)) = orders db0 @ [ord]"
    and len: "length (order_items ord) = length (cart_items cart)"
    and tot: "(\<forall>ci \<in> set (cart_items cart).
                   case product_findById (products db0) (ci_product ci) of
                     None \<Rightarrow> True
                   | Some p \<Rightarrow> of_int \<lfloor>new_price p\<rfloor> = new_price p \<and> 0 \<le> new_price p
                                \<and> new_price p < 2 ^ 53 \<and> 0 \<le> quantity ci
                                \<and> quantity ci < 2 ^ 53)
                \<and> sum_list (map (\<lambda>ci. case product_findById (products db0) (ci_product ci) of
                                          None \<Rightarrow> 0
                                        | Some p \<Rightarrow> new_price p * of_int (quantity ci))
                              (cart_items cart)) < 2 ^ 53
              \<longrightarrow> totalAmount ord
                    = Finite (sum_list (map (\<lambda>ci. case product_findById (products db0)
                                                         (ci_product ci) of
                                                  None \<Rightarrow> 0
                                                | Some p \<Rightarrow> new_price p * of_int (quantity ci))
                                        (cart_items cart)))"
    and bb: "\<forall>b. obj_get b ''shippingAddress'' = obj_get body ''shippingAddress''
                     \<and> obj_get b ''paymentMethod'' = obj_get body ''paymentMethod''
                 \<longrightarrow> post_order env0 db0 alice b
                      = (fst (post_order env0 db0 alice body), (201, Json ord))"
    by blast
  from cc c have ca: "cart = alice_cart" by simp
  with len n have r1: "length (order_items ord) = 2" by simp
  have "(25::rat) < 2 ^ 53" by simp
  with tot [unfolded ca] w s have r2: "totalAmount ord = Finite 25" by simp
  from bb b1 b2 have r3: "post_order env0 db0 alice body'
                            = (fst (post_order env0 db0 alice body), (201, Json ord))"
    by blast
  from h c n st r1 r2 r3 show ?thesis unfolding body_def body'_def by blast
qed

lemma find_replace_first:
  "find P xs = Some x \<Longrightarrow> P y \<Longrightarrow> find P (replace_first P y xs) = Some y"
  by (induction xs) (auto split: if_splits)

lemma length_replace_first: "length (replace_first P y xs) = length xs"
  by (induction xs) simp_all

lemma post_order_unchanged_or_stored:
  "orders (fst (post_order e d u body)) = orders d \<longrightarrow> fst (post_order e d u body) = d"
  by (cases rule: post_order_outcome [of e d u body]) simp_all

text \<open>
  Claim C2 as stated fails in two places. Where it says that a failed order write
  aborts with a persistence failure, whose status is 500: the catch of the route
  answers every error with status 400 and the error's message. And where it says that
  the cart is emptied after every successful order write: the cart is cleared by a
  second write, \<open>cart.save()\<close>, and when that one throws the order stays stored and
  the cart keeps its entries.
\<close>

theorem cart_write_failure_counterexample:
  "post_order (env0\<lparr>order_save_error := (\<lambda>r. Some ''order write failed'')\<rparr>) db0 alice
       [(''shippingAddress'', address0)]
     = (db0, (400, Msg ''order write failed''))
   \<and> fst (snd (post_order (env0\<lparr>order_save_error := (\<lambda>r. Some ''order write failed'')\<rparr>)
                   db0 alice [(''shippingAddress'', address0)])) \<noteq> 500
   \<and> snd (post_order (env0\<lparr>cart_save_error := (\<lambda>c. Some ''cart write failed'')\<rparr>) db0 alice
          [(''shippingAddress'', address0)])
     = (400, Msg ''cart write failed'')
   \<and> length (orders (fst (post_order (env0\<lparr>cart_save_error := (\<lambda>c. Some ''cart write failed'')\<rparr>)
                              db0 alice [(''shippingAddress'', address0)])))
       = Suc (length (orders db0))
   \<and> cart_findOne_user
        (carts (fst (post_order (env0\<lparr>cart_save_error := (\<lambda>c. Some ''cart write failed'')\<rparr>)
                       db0 alice [(''shippingAddress'', address0)])))
        (user_id alice)
       = Some alice_cart
   \<and> cart_items alice_cart \<noteq> []"
  by code_simp

text \<open>
  Claim C2, amended. Once the request has passed validation and the line items are
  built: if \<open>order.save()\<close> throws, the answer is 400 with the error's message and the
  store is as it was, the cart included; if it succeeds, the order is appended to the
  orders, and then either \<open>cart.save()\<close> succeeds, the answer is 201 and the user's
  cart is still in the store with no entries, or \<open>cart.save()\<close> throws, the answer
  is 400 with that error's message and only the order was added. For every request, a
  store whose orders are unchanged is unchanged as a whole: the cart is never written
  before the order is; and no request is answered 500.
\<close>

theorem order_write_before_cart_clear:
  assumes "truthy (obj_get body ''shippingAddress'')"
    and "cart_findOne_user (carts d) (user_id u) = Some cart"
    and "cart_items cart \<noteq> []"
    and "order_lines (cart_items (populate_cart (products d) cart)) (Finite 0) = Some (its, amt)"
    and "ord = new_Order e d u its amt (obj_get body ''shippingAddress'')
                 (obj_get body ''paymentMethod'')"
  shows "(order_save_error e ord = Some m \<longrightarrow> post_order e d u body = (d, (400, Msg m)))
       \<and> (order_save_error e ord = None \<longrightarrow>
            orders (fst (post_order e d u body)) = orders d @ [ord]
            \<and> (cart_save_error e (cart\<lparr>cart_items := []\<rparr>) = None \<longrightarrow>
                 snd (post_order e d u body) = (201, Json ord)
                 \<and> cart_findOne_user (carts (fst (post_order e d u body))) (user_id u)
                     = Some (cart\<lparr>cart_items := []\<rparr>)
                 \<and> length (carts (fst (post_order e d u body))) = length (carts d))
            \<and> (cart_save_error e (cart\<lparr>cart_items := []\<rparr>) = Some m \<longrightarrow>
                 post_order e d u body = (d\<lparr>orders := orders d @ [ord]\<rparr>, (400, Msg m))))
       \<and> (orders (fst (post_order e d u body)) = orders d \<longrightarrow> fst (post_order e d u body) = d)
       \<and> fst (snd (post_order e d u body)) \<noteq> 500"
proof (intro conjI impI)
  assume "order_save_error e ord = Some m"
  then show "post_order e d u body = (d, (400, Msg m))"
    using post_order_order_fails [OF assms(1-4)] assms(5) by simp
next
  assume h: "order_save_error e ord = None"
  show "orders (fst (post_order e d u body)) = orders d @ [ord]"
  proof (cases "cart_save_error e (cart\<lparr>cart_items := []\<rparr>)")
    case None
    from post_order_ok [OF assms h None] show ?thesis by simp
  next
    case (Some m')
    from post_order_cart_fails [OF assms h Some] show ?thesis by simp
  qed
next
  assume h: "order_save_error e ord = None"
    and k: "cart_save_error e (cart\<lparr>cart_items := []\<rparr>) = None"
  note ok = post_order_ok [OF assms h k]
  from ok show "snd (post_order e d u body) = (201, Json ord)" by simp
  have cu: "cart_user cart = user_id u"
    using find_Some_pred [OF assms(2) [unfolded cart_findOne_user_def]] by simp
  from ok show "cart_findOne_user (carts (fst (post_order e d u body))) (user_id u)
                     = Some (cart\<lparr>cart_items := []\<rparr>)"
    using find_replace_first [OF assms(2) [unfolded cart_findOne_user_def],
        of "cart\<lparr>cart_items := []\<rparr>"] cu
    by (simp add: cart_findOne_user_def)
  from ok show "length (carts (fst (post_order e d u body))) = length (carts d)"
    by (simp add: length_replace_first)
next
  assume h: "order_save_error e ord = None"
    and k: "cart_save_error e (cart\<lparr>cart_items := []\<rparr>) = Some m"
  from post_order_cart_fails [OF assms h k]
  show "post_order e d u body = (d\<lparr>orders := orders d @ [ord]\<rparr>, (400, Msg m))" .
next
  assume "orders (fst (post_order e d u body)) = orders d"
  then show "fst (post_order e d u body) = d"
    using post_order_unchanged_or_stored by blast
next
  show "fst (snd (post_order e d u body)) \<noteq> 500"
    by (cases rule: post_order_outcome [of e d u body]) simp_all
qed

theorem order_write_before_cart_clear_witness:
  "post_order (env0\<lparr>order_save_error := (\<lambda>r. Some ''write failed'')\<rparr>) db0 alice
       [(''shippingAddress'', address0)]
     = (db0, (400, Msg ''write failed''))
   \<and> cart_findOne_user (carts db0) (user_id alice) = Some alice_cart
   \<and> cart_items alice_cart \<noteq> []
   \<and> cart_findOne_user
        (carts (fst (post_order env0 db0 alice [(''shippingAddress'', address0)]))) (user_id alice)
       = Some (alice_cart\<lparr>cart_items := []\<rparr>)
   \<and> length (orders (fst (post_order env0 db0 alice [(''shippingAddress'', address0)])))
       = Suc (length (orders db0))
   \<and> fst (snd (post_order env0 db0 alice [(''shippingAddress'', address0)])) = 201
   \<and> snd (post_order (env0\<lparr>cart_save_error := (\<lambda>c. Some ''cart write failed'')\<rparr>) db0 alice
             [(''shippingAddress'', address0)])
       = (400, Msg ''cart write failed'')
   \<and> carts (fst (post_order (env0\<lparr>cart_save_error := (\<lambda>c. Some ''cart write failed'')\<rparr>) db0
                    alice [(''shippingAddress'', address0)]))
       = carts db0"
proof -
  define body where "body = [(''shippingAddress'', address0)]"
  define its where "its =
     [\<lparr>oi_product = 10, oi_name = ''Kurti'', oi_image = ''/assets/women1.jfif'',
       oi_price = Finite 10, oi_quantity = 2\<rparr>,
      \<lparr>oi_product = 11::nat, oi_name = ''Jeans'', oi_image = ''/assets/men1.webp'',
       oi_price = Finite 5, oi_quantity = 1\<rparr>]"
  define envF where "envF = env0\<lparr>order_save_error := (\<lambda>r. Some ''write failed'')\<rparr>"
  define envC where "envC = env0\<lparr>cart_save_error := (\<lambda>c. Some ''cart write failed'')\<rparr>"
  have a: "truthy (obj_get body ''shippingAddress'')" unfolding body_def by code_simp
  have c: "cart_findOne_user (carts db0) (user_id alice) = Some alice_cart" by code_simp
  have ne: "cart_items alice_cart \<noteq> []" by code_simp
  have l: "order_lines (cart_items (populate_cart (products db0) alice_cart)) (Finite 0)
             = Some (its, Finite 25)"
    unfolding its_def by code_simp
  have f: "order_save_error envF (new_Order envF db0 alice its (Finite 25) (obj_get body ''shippingAddress'')
                 (obj_get body ''paymentMethod'')) = Some ''write failed''"
    unfolding envF_def by simp
  have g: "order_save_error env0 (new_Order env0 db0 alice its (Finite 25) (obj_get body ''shippingAddress'')
                 (obj_get body ''paymentMethod'')) = None"
    by (simp add: env0_def)
  have k: "cart_save_error env0 (alice_cart\<lparr>cart_items := []\<rparr>) = None"
    by (simp add: env0_def)
  have g': "order_save_error envC (new_Order envC db0 alice its (Finite 25) (obj_get body ''shippingAddress'')
                 (obj_get body ''paymentMethod'')) = None"
    by (simp add: envC_def env0_def)
  have k': "cart_save_error envC (alice_cart\<lparr>cart_items := []\<rparr>) = Some ''cart write failed''"
    by (simp add: envC_def)
  have r1: "post_order envF db0 alice body = (db0, (400, Msg ''write failed''))"
    using order_write_before_cart_clear [OF a c ne l refl, where e = envF and m = "''write failed''"] f
    by blast
  have r2: "cart_findOne_user (carts (fst (post_order env0 db0 alice body))) (user_id alice)
       = Some (alice_cart\<lparr>cart_items := []\<rparr>)
     \<and> orders (fst (post_order env0 db0 alice body))
       = orders db0 @ [new_Order env0 db0 alice its (Finite 25) (obj_get body ''shippingAddress'')
                 (obj_get body ''paymentMethod'')]
     \<and> snd (post_order env0 db0 alice body)
       = (201, Json (new_Order env0 db0 alice its (Finite 25) (obj_get body ''shippingAddress'')
                 (obj_get body ''paymentMethod'')))"
    using order_write_before_cart_clear [OF a c ne l refl, where e = env0] g k
    by blast
  from r2 have r5: "fst (snd (post_order env0 db0 alice body)) = 201" by simp
  from r2 have r3: "length (orders (fst (post_order env0 db0 alice body))) = Suc (length (orders db0))"
    by simp
  have "post_order envC db0 alice body
          = (db0\<lparr>orders := orders db0 @ [new_Order envC db0 alice its (Finite 25)
               (obj_get body ''shippingAddress'') (obj_get body ''paymentMethod'')]\<rparr>,
             (400, Msg ''cart write failed''))"
    using order_write_before_cart_clear [OF a c ne l refl, where e = envC
        and m = "''cart write failed''"] g' k'
    by blast
  then have r4: "snd (post_order envC db0 alice body) = (400, Msg ''cart write failed'')
                 \<and> carts (fst (post_order envC db0 alice body)) = carts db0"
    by simp
  from r1 r2 r3 r4 r5 c ne show ?thesis unfolding body_def envF_def envC_def by blast
qed

section \<open>Checkout validation\<close>




section \<open>Registration\<close>

lemma new_user_email:
  "obj_get (user_fields (hash_on_save e (new_User d nm em pw))) ''email'' = JStr em"
  by (simp add: hash_on_save_def new_User_def obj_get_set) (simp add: obj_get_def)

lemma email_taken_iff:
  "(user_findOne_email us n = None)
   = (\<forall>u \<in> set us. obj_get (user_fields u) ''email'' \<noteq> JStr n)"
  by (auto simp: user_findOne_email_def find_None_iff)

lemma signup_missing_field:
  "\<not> truthy (obj_get body ''name'') \<or> \<not> truthy (obj_get body ''email'')
     \<or> \<not> truthy (obj_get body ''password'')
   \<Longrightarrow> post_signup e d body = (d, (400, Msg ''Please provide all required fields''))"
  by (auto simp: post_signup_def)

lemma signup_not_string:
  "truthy (obj_get body ''name'') \<Longrightarrow> truthy (obj_get body ''email'')
   \<Longrightarrow> truthy (obj_get body ''password'')
   \<Longrightarrow> \<forall>em. obj_get body ''email'' \<noteq> JStr em
   \<Longrightarrow> post_signup e d body = (d, (400, Msg ''email.toLowerCase is not a function''))"
  by (cases "obj_get body ''email''") (simp_all add: post_signup_def)

lemma signup_existing:
  "truthy (obj_get body ''name'') \<Longrightarrow> obj_get body ''email'' = JStr em \<Longrightarrow> em \<noteq> []
   \<Longrightarrow> truthy (obj_get body ''password'')
   \<Longrightarrow> user_findOne_email (users d) (trim e (toLowerCase e em)) = Some x
   \<Longrightarrow> post_signup e d body = (d, (400, Msg ''User already exists with this email''))"
  by (simp add: post_signup_def)

lemma signup_save_fails:
  "truthy (obj_get body ''name'') \<Longrightarrow> obj_get body ''email'' = JStr em \<Longrightarrow> em \<noteq> []
   \<Longrightarrow> truthy (obj_get body ''password'')
   \<Longrightarrow> user_findOne_email (users d) (trim e (toLowerCase e em)) = None
   \<Longrightarrow> user_save_error e (new_User d (obj_get body ''name'') (trim e (toLowerCase e em))
          (obj_get body ''password'')) = Some m
   \<Longrightarrow> post_signup e d body = (d, (400, Msg m))"
  by (simp add: post_signup_def)

lemma signup_created:
  "truthy (obj_get body ''name'') \<Longrightarrow> obj_get body ''email'' = JStr em \<Longrightarrow> em \<noteq> []
   \<Longrightarrow> truthy (obj_get body ''password'')
   \<Longrightarrow> user_findOne_email (users d) (trim e (toLowerCase e em)) = None
   \<Longrightarrow> usr = new_User d (obj_get body ''name'') (trim e (toLowerCase e em)) (obj_get body ''password'')
   \<Longrightarrow> user_save_error e usr = None
   \<Longrightarrow> post_signup e d body
       = (d\<lparr>users := users d @ [hash_on_save e usr]\<rparr>,
          (201, Json (auth_reply ''User created successfully''
                        (generateToken e (user_id (hash_on_save e usr))) (hash_on_save e usr))))"
  by (simp add: post_signup_def Let_def)

text \<open>What a signup does to the store, by the status of its answer.\<close>

lemma signup_effect:
  "(fst (snd (post_signup e d body)) \<noteq> 201 \<and> fst (post_signup e d body) = d)
   \<or> (fst (snd (post_signup e d body)) = 201
       \<and> (\<exists>em u. obj_get body ''email'' = JStr em
             \<and> user_findOne_email (users d) (trim e (toLowerCase e em)) = None
             \<and> users (fst (post_signup e d body)) = users d @ [u]
             \<and> obj_get (user_fields u) ''email'' = JStr (trim e (toLowerCase e em))))"
proof (cases "truthy (obj_get body ''name'') \<and> truthy (obj_get body ''email'')
               \<and> truthy (obj_get body ''password'')")
  case False
  then have "post_signup e d body = (d, (400, Msg ''Please provide all required fields''))"
    by (intro signup_missing_field) blast
  then show ?thesis by simp
next
  case t: True
  show ?thesis
  proof (cases "\<exists>em. obj_get body ''email'' = JStr em")
    case False
    with t have "post_signup e d body = (d, (400, Msg ''email.toLowerCase is not a function''))"
      by (intro signup_not_string) simp_all
    then show ?thesis by simp
  next
    case True
    then obtain em where em: "obj_get body ''email'' = JStr em" by blast
    with t have ne: "em \<noteq> []" by auto
    show ?thesis
    proof (cases "user_findOne_email (users d) (trim e (toLowerCase e em))")
      case (Some x)
      from signup_existing [OF _ em ne _ Some] t show ?thesis by simp
    next
      case None
      define usr where "usr = new_User d (obj_get body ''name'') (trim e (toLowerCase e em))
          (obj_get body ''password'')"
      show ?thesis
      proof (cases "user_save_error e usr")
        case (Some m)
        from signup_save_fails [OF _ em ne _ None Some [unfolded usr_def]] t
        show ?thesis by simp
      next
        case sv: None
        from signup_created [OF _ em ne _ None usr_def sv] t
        have "post_signup e d body
              = (d\<lparr>users := users d @ [hash_on_save e usr]\<rparr>,
                 (201, Json (auth_reply ''User created successfully''
                        (generateToken e (user_id (hash_on_save e usr))) (hash_on_save e usr))))"
          by simp
        moreover have "obj_get (user_fields (hash_on_save e usr)) ''email''
                         = JStr (trim e (toLowerCase e em))"
          by (simp add: usr_def new_user_email)
        ultimately show ?thesis using em None by auto
      qed
    qed
  qed
qed

lemma signup_keeps_taken:
  assumes "\<exists>u \<in> set (users d). obj_get (user_fields u) ''email'' = JStr n"
  shows "\<exists>u \<in> set (users (fst (post_signup e d body))). obj_get (user_fields u) ''email'' = JStr n"
  using signup_effect [of e d body] assms by auto

lemma signup_taken_not_registered:
  assumes "\<exists>u \<in> set (users d). obj_get (user_fields u) ''email'' = JStr n"
  shows "\<not> registered e n (body, snd (post_signup e d body))"
proof
  assume r: "registered e n (body, snd (post_signup e d body))"
  then have st: "fst (snd (post_signup e d body)) = 201"
    and ne: "normalized_email e body = Some n"
    by (simp_all add: registered_def)
  from signup_effect [of e d body] st obtain em where
    em: "obj_get body ''email'' = JStr em"
    and free: "user_findOne_email (users d) (trim e (toLowerCase e em)) = None"
    by auto
  from ne em have "n = trim e (toLowerCase e em)" by (simp add: normalized_email_def)
  with free assms show False by (simp add: email_taken_iff)
qed

lemma signups_none_when_taken:
  "\<exists>u \<in> set (users d). obj_get (user_fields u) ''email'' = JStr n
   \<Longrightarrow> filter (registered e n) (zip bodies (signups e d bodies)) = []"
proof (induction bodies arbitrary: d)
  case Nil
  then show ?case by simp
next
  case (Cons b bs)
  obtain d' r where p: "post_signup e d b = (d', r)" by (cases "post_signup e d b")
  from signup_keeps_taken [OF Cons.prems, of e b] p
  have "\<exists>u \<in> set (users d'). obj_get (user_fields u) ''email'' = JStr n" by simp
  from Cons.IH [OF this] have rest: "filter (registered e n) (zip bs (signups e d' bs)) = []" .
  from signup_taken_not_registered [OF Cons.prems, where body = b and e = e] p
  have "\<not> registered e n (b, r)" by simp
  with rest p show ?case by simp
qed

lemma signups_at_most_one:
  "length (filter (registered e n) (zip bodies (signups e d bodies))) \<le> 1"
proof (induction bodies arbitrary: d)
  case Nil
  then show ?case by simp
next
  case (Cons b bs)
  obtain d' r where p: "post_signup e d b = (d', r)" by (cases "post_signup e d b")
  show ?case
  proof (cases "registered e n (b, r)")
    case False
    with p Cons.IH [of d'] show ?thesis by simp
  next
    case True
    then have st: "fst r = 201" and ne: "normalized_email e b = Some n"
      by (simp_all add: registered_def)
    from signup_effect [of e d b] st p obtain em u where
      em: "obj_get b ''email'' = JStr em"
      and us: "users d' = users d @ [u]"
      and ue: "obj_get (user_fields u) ''email'' = JStr (trim e (toLowerCase e em))"
      by auto
    from ne em have "n = trim e (toLowerCase e em)" by (simp add: normalized_email_def)
    with us ue have "\<exists>u \<in> set (users d'). obj_get (user_fields u) ''email'' = JStr n" by auto
    from signups_none_when_taken [OF this]
    have "filter (registered e n) (zip bs (signups e d' bs)) = []" .
    with p True show ?thesis by simp
  qed
qed

text \<open>
  The two string functions on code units below 256: pad an email with white space and
  change the case of its letters, and the normalized form is the same.
\<close>

lemma is_space_lower: "is_space (lower_char c) = is_space c"
proof -
  have "of_char c < (256::nat)" by simp
  then show ?thesis
    by (auto simp: is_space_def lower_char_def Let_def)
qed

lemma latin1_toLowerCase_append:
  "latin1_toLowerCase (xs @ ys) = latin1_toLowerCase xs @ latin1_toLowerCase ys"
  by (simp add: latin1_toLowerCase_def)

lemma spaces_latin1_toLowerCase:
  "list_all is_space (latin1_toLowerCase xs) = list_all is_space xs"
  by (induction xs) (simp_all add: latin1_toLowerCase_def is_space_lower)

lemma latin1_trim_pad:
  assumes "list_all is_space a" and "list_all is_space b"
  shows "latin1_trim (a @ s @ b) = latin1_trim s"
proof -
  have front: "dropWhile is_space (a @ s @ b) = dropWhile is_space (s @ b)"
    using assms(1) by (auto simp: list_all_iff intro!: dropWhile_append2)
  have revb: "\<And>ys. dropWhile is_space (rev b @ ys) = dropWhile is_space ys"
    using assms(2) by (auto simp: list_all_iff intro!: dropWhile_append2)
  show ?thesis
  proof (cases "list_all is_space s")
    case True
    with assms(2) have e1: "dropWhile is_space (s @ b) = []"
      by (auto simp: list_all_iff dropWhile_eq_Nil_conv)
    from True have e2: "dropWhile is_space s = []"
      by (auto simp: list_all_iff dropWhile_eq_Nil_conv)
    have "latin1_trim (a @ s @ b) = []" unfolding latin1_trim_def front e1 by simp
    moreover have "latin1_trim s = []" unfolding latin1_trim_def e2 by simp
    ultimately show ?thesis by simp
  next
    case False
    then obtain x where "x \<in> set s" and "\<not> is_space x" by (auto simp: list_all_iff)
    then have e3: "dropWhile is_space (s @ b) = dropWhile is_space s @ b"
      by (rule dropWhile_append1)
    show ?thesis unfolding latin1_trim_def front e3 rev_append revb ..
  qed
qed

lemma latin1_normalize_variant:
  assumes "list_all is_space a" and "list_all is_space b"
    and "latin1_toLowerCase s' = latin1_toLowerCase s"
  shows "latin1_trim (latin1_toLowerCase (a @ s' @ b)) = latin1_trim (latin1_toLowerCase s)"
  using assms
  by (simp add: latin1_toLowerCase_append latin1_trim_pad spaces_latin1_toLowerCase)

lemma signup_same_normal_form:
  assumes "fst (snd (post_signup e d body)) = 201" and "obj_get body ''email'' = JStr em"
    and "truthy (obj_get body2 ''name'')" and "obj_get body2 ''email'' = JStr em2"
    and "em2 \<noteq> []" and "truthy (obj_get body2 ''password'')"
    and "trim e (toLowerCase e em2) = trim e (toLowerCase e em)"
  shows "post_signup e (fst (post_signup e d body)) body2
          = (fst (post_signup e d body), (400, Msg ''User already exists with this email''))"
proof -
  from assms(1,2) signup_effect [of e d body] obtain u' where
    us: "users (fst (post_signup e d body)) = users d @ [u']"
    and ue: "obj_get (user_fields u') ''email'' = JStr (trim e (toLowerCase e em))"
    by auto
  from us ue assms(7) obtain x where
    x: "user_findOne_email (users (fst (post_signup e d body))) (trim e (toLowerCase e em2))
       = Some x"
    using email_taken_iff [of "users (fst (post_signup e d body))" "trim e (toLowerCase e em)"]
    by auto
  from signup_existing [OF assms(3-6) x] show ?thesis .
qed

text \<open>
  Claim C6. \<open>POST /signup\<close> looks up and stores \<open>email.toLowerCase().trim()\<close>, the
  normalized email, whatever the runtime's \<open>toLowerCase\<close> and \<open>trim\<close> are. A
  request with all three fields whose normalized email is the stored email of a user
  is answered 400 \<open>User already exists with this email\<close> and writes nothing; with
  or without the other fields it is not answered 201 and writes nothing. A
  request answered 201 found no user with its normalized email and appended one user
  who holds it. After a request answered 201, a request whose email has the same
  normalized form as the registered one is answered with the conflict; where the
  strings are of code units below 256, such is every email that differs from the
  registered one only by the case of its letters and by white space around it. In
  every sequence of
  signup requests served one after the other, from any store, at most one request with
  a given normalized email is answered 201.
\<close>

theorem signup_normalized_email_conflict:
  "(truthy (obj_get body ''name'') \<and> obj_get body ''email'' = JStr em \<and> em \<noteq> []
      \<and> truthy (obj_get body ''password'')
      \<and> (\<exists>u \<in> set (users d).
            obj_get (user_fields u) ''email'' = JStr (trim e (toLowerCase e em)))
     \<longrightarrow> post_signup e d body = (d, (400, Msg ''User already exists with this email'')))
   \<and> (normalized_email e body = Some n
      \<and> (\<exists>u \<in> set (users d). obj_get (user_fields u) ''email'' = JStr n)
     \<longrightarrow> fst (snd (post_signup e d body)) \<noteq> 201 \<and> fst (post_signup e d body) = d)
   \<and> (fst (snd (post_signup e d body)) = 201
     \<longrightarrow> (\<exists>em' u'. obj_get body ''email'' = JStr em'
            \<and> user_findOne_email (users d) (trim e (toLowerCase e em')) = None
            \<and> users (fst (post_signup e d body)) = users d @ [u']
            \<and> obj_get (user_fields u') ''email'' = JStr (trim e (toLowerCase e em'))))
   \<and> (fst (snd (post_signup e d body)) = 201 \<and> obj_get body ''email'' = JStr em
      \<and> truthy (obj_get body2 ''name'') \<and> obj_get body2 ''email'' = JStr em2
      \<and> truthy (obj_get body2 ''password'') \<and> em2 \<noteq> []
      \<and> trim e (toLowerCase e em2) = trim e (toLowerCase e em)
     \<longrightarrow> post_signup e (fst (post_signup e d body)) body2
          = (fst (post_signup e d body), (400, Msg ''User already exists with this email'')))
   \<and> (toLowerCase e = latin1_toLowerCase \<and> trim e = latin1_trim
      \<and> fst (snd (post_signup e d body)) = 201 \<and> obj_get body ''email'' = JStr em
      \<and> truthy (obj_get body3 ''name'') \<and> obj_get body3 ''email'' = JStr (a @ em3 @ b)
      \<and> truthy (obj_get body3 ''password'')
      \<and> list_all is_space a \<and> list_all is_space b
      \<and> latin1_toLowerCase em3 = latin1_toLowerCase em \<and> em3 \<noteq> []
     \<longrightarrow> post_signup e (fst (post_signup e d body)) body3
          = (fst (post_signup e d body), (400, Msg ''User already exists with this email'')))
   \<and> length (filter (registered e n) (zip bodies (signups e d bodies))) \<le> 1"
proof (intro conjI impI)
  assume h: "truthy (obj_get body ''name'') \<and> obj_get body ''email'' = JStr em \<and> em \<noteq> []
      \<and> truthy (obj_get body ''password'')
      \<and> (\<exists>u \<in> set (users d).
            obj_get (user_fields u) ''email'' = JStr (trim e (toLowerCase e em)))"
  then obtain x where "user_findOne_email (users d) (trim e (toLowerCase e em)) = Some x"
    using email_taken_iff [of "users d" "trim e (toLowerCase e em)"] by auto
  with h show "post_signup e d body = (d, (400, Msg ''User already exists with this email''))"
    by (intro signup_existing) simp_all
next
  assume h: "normalized_email e body = Some n
      \<and> (\<exists>u \<in> set (users d). obj_get (user_fields u) ''email'' = JStr n)"
  then have "\<not> registered e n (body, snd (post_signup e d body))"
    by (intro signup_taken_not_registered) simp
  with h show "fst (snd (post_signup e d body)) \<noteq> 201" by (simp add: registered_def)
  with signup_effect [of e d body] show "fst (post_signup e d body) = d" by blast
next
  assume "fst (snd (post_signup e d body)) = 201"
  with signup_effect [of e d body]
  show "\<exists>em' u'. obj_get body ''email'' = JStr em'
            \<and> user_findOne_email (users d) (trim e (toLowerCase e em')) = None
            \<and> users (fst (post_signup e d body)) = users d @ [u']
            \<and> obj_get (user_fields u') ''email'' = JStr (trim e (toLowerCase e em'))"
    by blast
next
  assume h: "fst (snd (post_signup e d body)) = 201 \<and> obj_get body ''email'' = JStr em
      \<and> truthy (obj_get body2 ''name'') \<and> obj_get body2 ''email'' = JStr em2
      \<and> truthy (obj_get body2 ''password'') \<and> em2 \<noteq> []
      \<and> trim e (toLowerCase e em2) = trim e (toLowerCase e em)"
  then have "fst (snd (post_signup e d body)) = 201" and "obj_get body ''email'' = JStr em"
    and "truthy (obj_get body2 ''name'')" and "obj_get body2 ''email'' = JStr em2"
    and "em2 \<noteq> []" and "truthy (obj_get body2 ''password'')"
    and "trim e (toLowerCase e em2) = trim e (toLowerCase e em)"
    by simp_all
  then show "post_signup e (fst (post_signup e d body)) body2
          = (fst (post_signup e d body), (400, Msg ''User already exists with this email''))"
    by (rule signup_same_normal_form)
next
  assume h: "toLowerCase e = latin1_toLowerCase \<and> trim e = latin1_trim
      \<and> fst (snd (post_signup e d body)) = 201 \<and> obj_get body ''email'' = JStr em
      \<and> truthy (obj_get body3 ''name'') \<and> obj_get body3 ''email'' = JStr (a @ em3 @ b)
      \<and> truthy (obj_get body3 ''password'')
      \<and> list_all is_space a \<and> list_all is_space b
      \<and> latin1_toLowerCase em3 = latin1_toLowerCase em \<and> em3 \<noteq> []"
  then have "latin1_trim (latin1_toLowerCase (a @ em3 @ b)) = latin1_trim (latin1_toLowerCase em)"
    by (intro latin1_normalize_variant) simp_all
  with h have nv: "trim e (toLowerCase e (a @ em3 @ b)) = trim e (toLowerCase e em)" by simp
  from h have "fst (snd (post_signup e d body)) = 201" and "obj_get body ''email'' = JStr em"
    and "truthy (obj_get body3 ''name'')" and "obj_get body3 ''email'' = JStr (a @ em3 @ b)"
    and "a @ em3 @ b \<noteq> []" and "truthy (obj_get body3 ''password'')"
    by simp_all
  from signup_same_normal_form [OF this nv]
  show "post_signup e (fst (post_signup e d body)) body3
          = (fst (post_signup e d body), (400, Msg ''User already exists with this email''))" .
next
  show "length (filter (registered e n) (zip bodies (signups e d bodies))) \<le> 1"
    by (rule signups_at_most_one)
qed

text \<open>
  A registration in capitals, then the same email in mixed case between spaces and
  in small letters; an email of a stored user in capitals behind a no-break space, with
  and without the other fields.
\<close>

theorem signup_normalized_email_conflict_witness:
  "fst (snd (post_signup env0 db0
       [(''name'', JStr ''Sadique''), (''email'', JStr ''MDSAD6385@GMAIL.COM''),
        (''password'', JStr ''secret1'')])) = 201
   \<and> post_signup env0
        (fst (post_signup env0 db0
           [(''name'', JStr ''Sadique''), (''email'', JStr ''MDSAD6385@GMAIL.COM''),
            (''password'', JStr ''secret1'')]))
        [(''name'', JStr ''Other''), (''email'', JStr '' mdsad6385@Gmail.com  ''),
         (''password'', JStr ''secret9'')]
       = (fst (post_signup env0 db0
           [(''name'', JStr ''Sadique''), (''email'', JStr ''MDSAD6385@GMAIL.COM''),
            (''password'', JStr ''secret1'')]),
          (400, Msg ''User already exists with this email''))
   \<and> post_signup env0
        (fst (post_signup env0 db0
           [(''name'', JStr ''Sadique''), (''email'', JStr ''MDSAD6385@GMAIL.COM''),
            (''password'', JStr ''secret1'')]))
        [(''name'', JStr ''Third''), (''email'', JStr ''mdsad6385@gmail.com''),
         (''password'', JStr ''secret7'')]
       = (fst (post_signup env0 db0
           [(''name'', JStr ''Sadique''), (''email'', JStr ''MDSAD6385@GMAIL.COM''),
            (''password'', JStr ''secret1'')]),
          (400, Msg ''User already exists with this email''))
   \<and> post_signup env0 db0
        [(''name'', JStr ''Al''), (''email'', JStr (CHR 0xA0 # ''ALICE@shop.test '')),
         (''password'', JStr ''pw'')]
       = (db0, (400, Msg ''User already exists with this email''))
   \<and> fst (post_signup env0 db0 [(''email'', JStr (CHR 0xA0 # ''ALICE@shop.test ''))]) = db0
   \<and> length (filter (registered env0 ''mdsad6385@gmail.com'')
         (zip [[(''name'', JStr ''Sadique''), (''email'', JStr ''MDSAD6385@GMAIL.COM''),
                (''password'', JStr ''secret1'')],
               [(''name'', JStr ''Other''), (''email'', JStr '' mdsad6385@Gmail.com  ''),
                (''password'', JStr ''secret9'')]]
           (signups env0 db0
              [[(''name'', JStr ''Sadique''), (''email'', JStr ''MDSAD6385@GMAIL.COM''),
                (''password'', JStr ''secret1'')],
               [(''name'', JStr ''Other''), (''email'', JStr '' mdsad6385@Gmail.com  ''),
                (''password'', JStr ''secret9'')]]))) = 1"
proof -
  define b1 where "b1 = [(''name'', JStr ''Sadique''), (''email'', JStr ''MDSAD6385@GMAIL.COM''),
        (''password'', JStr ''secret1'')]"
  define b2 where "b2 = [(''name'', JStr ''Other''), (''email'', JStr '' mdsad6385@Gmail.com  ''),
         (''password'', JStr ''secret9'')]"
  define b3 where "b3 = [(''name'', JStr ''Al''), (''email'', JStr (CHR 0xA0 # ''ALICE@shop.test '')),
         (''password'', JStr ''pw'')]"
  define b4 where "b4 = [(''email'', JStr (CHR 0xA0 # ''ALICE@shop.test ''))]"
  have s: "fst (snd (post_signup env0 db0 b1)) = 201" unfolding b1_def by code_simp
  have e1: "obj_get b1 ''email'' = JStr ''MDSAD6385@GMAIL.COM''" unfolding b1_def by code_simp
  have n2: "truthy (obj_get b2 ''name'')" unfolding b2_def by code_simp
  have e2: "obj_get b2 ''email'' = JStr ('' '' @ ''mdsad6385@Gmail.com'' @ ''  '')"
    unfolding b2_def by code_simp
  have p2: "truthy (obj_get b2 ''password'')" unfolding b2_def by code_simp
  have f1: "toLowerCase env0 = latin1_toLowerCase" by (simp add: env0_def)
  have f2: "trim env0 = latin1_trim" by (simp add: env0_def)
  have sa: "list_all is_space '' ''" by code_simp
  have sb: "list_all is_space ''  ''" by code_simp
  have lc: "latin1_toLowerCase ''mdsad6385@Gmail.com'' = latin1_toLowerCase ''MDSAD6385@GMAIL.COM''"
    by code_simp
  have ne: "''mdsad6385@Gmail.com'' \<noteq> []" by simp
  have r1: "post_signup env0 (fst (post_signup env0 db0 b1)) b2
          = (fst (post_signup env0 db0 b1), (400, Msg ''User already exists with this email''))"
    using signup_normalized_email_conflict [where e = env0 and d = db0 and body = b1
        and ?body3.0 = b2 and em = "''MDSAD6385@GMAIL.COM''" and a = "'' ''"
        and ?em3.0 = "''mdsad6385@Gmail.com''" and b = "''  ''"]
      f1 f2 s e1 n2 e2 p2 sa sb lc ne
    by blast
  define b5 where "b5 = [(''name'', JStr ''Third''), (''email'', JStr ''mdsad6385@gmail.com''),
         (''password'', JStr ''secret7'')]"
  have n5: "truthy (obj_get b5 ''name'')" unfolding b5_def by code_simp
  have e5: "obj_get b5 ''email'' = JStr ''mdsad6385@gmail.com''" unfolding b5_def by code_simp
  have p5: "truthy (obj_get b5 ''password'')" unfolding b5_def by code_simp
  have l5: "trim env0 (toLowerCase env0 ''mdsad6385@gmail.com'')
              = trim env0 (toLowerCase env0 ''MDSAD6385@GMAIL.COM'')"
    by code_simp
  have ne5: "''mdsad6385@gmail.com'' \<noteq> []" by simp
  have r5: "post_signup env0 (fst (post_signup env0 db0 b1)) b5
          = (fst (post_signup env0 db0 b1), (400, Msg ''User already exists with this email''))"
    using signup_normalized_email_conflict [where e = env0 and d = db0 and body = b1
        and ?body2.0 = b5 and em = "''MDSAD6385@GMAIL.COM''"
        and ?em2.0 = "''mdsad6385@gmail.com''"]
      s e1 n5 e5 p5 l5 ne5
    by blast
  have n3: "truthy (obj_get b3 ''name'')" unfolding b3_def by code_simp
  have e3: "obj_get b3 ''email'' = JStr (CHR 0xA0 # ''ALICE@shop.test '')"
    unfolding b3_def by code_simp
  have p3: "truthy (obj_get b3 ''password'')" unfolding b3_def by code_simp
  have ne3: "CHR 0xA0 # ''ALICE@shop.test '' \<noteq> []" by simp
  have al: "alice \<in> set (users db0)" by (simp add: db0_def)
  have ae: "obj_get (user_fields alice) ''email''
              = JStr (trim env0 (toLowerCase env0 (CHR 0xA0 # ''ALICE@shop.test '')))"
    by code_simp
  have r2: "post_signup env0 db0 b3 = (db0, (400, Msg ''User already exists with this email''))"
    using signup_normalized_email_conflict [where e = env0 and d = db0 and body = b3
        and em = "CHR 0xA0 # ''ALICE@shop.test ''"] n3 e3 p3 ne3 al ae
    by blast
  have e4: "normalized_email env0 b4
              = Some (trim env0 (toLowerCase env0 (CHR 0xA0 # ''ALICE@shop.test '')))"
    unfolding b4_def by code_simp
  have r3: "fst (post_signup env0 db0 b4) = db0"
    using signup_normalized_email_conflict [where e = env0 and d = db0 and body = b4
        and n = "trim env0 (toLowerCase env0 (CHR 0xA0 # ''ALICE@shop.test ''))"] e4 al ae
    by blast
  have r4: "length (filter (registered env0 ''mdsad6385@gmail.com'')
              (zip [b1, b2] (signups env0 db0 [b1, b2]))) = 1"
    unfolding b1_def b2_def by code_simp
  from s r1 r5 r2 r3 r4 show ?thesis unfolding b1_def b2_def b3_def b4_def b5_def by blast
qed

section \<open>Cart quantities\<close>

lemma list_all_replace_first:
  "list_all Q xs \<Longrightarrow> Q y \<Longrightarrow> list_all Q (replace_first P y xs)"
  by (induction xs) simp_all

lemma find_append_None: "find P xs = None \<Longrightarrow> find P (xs @ ys) = find P ys"
  by (induction xs) (auto split: if_splits)

lemma cart_read_found:
  "cart_findOne_user (carts (fst (cart_read d uid))) uid = Some (snd (cart_read d uid))
   \<and> cart_user (snd (cart_read d uid)) = uid"
proof (cases "cart_findOne_user (carts d) uid")
  case None
  then show ?thesis
    by (simp add: cart_read_def cart_findOne_user_def find_append_None Let_def)
next
  case (Some c)
  with find_Some_pred [of "\<lambda>c. cart_user c = uid" "carts d" c]
  show ?thesis by (simp add: cart_read_def cart_findOne_user_def)
qed

lemma cart_read_positive:
  assumes "quantities_positive d"
  shows "quantities_positive (fst (cart_read d uid))
         \<and> list_all (\<lambda>it. 1 \<le> quantity it) (cart_items (snd (cart_read d uid)))"
proof (cases "cart_findOne_user (carts d) uid")
  case None
  with assms show ?thesis by (simp add: cart_read_def quantities_positive_def Let_def)
next
  case (Some c)
  with find_Some_pred [of "\<lambda>c. cart_user c = uid" "carts d" c]
  have "c \<in> set (carts d)" by (simp add: cart_findOne_user_def)
  with assms have "list_all (\<lambda>it. 1 \<le> quantity it) (cart_items c)"
    by (simp add: quantities_positive_def list_all_iff)
  with Some assms show ?thesis by (simp add: cart_read_def)
qed

lemma cart_update_positive:
  assumes "quantities_positive d"
    and "\<And>its. list_all (\<lambda>it. 1 \<le> quantity it) its \<Longrightarrow> list_all (\<lambda>it. 1 \<le> quantity it) (f its)"
  shows "quantities_positive (cart_update d uid f)"
proof -
  obtain d1 c where r: "cart_read d uid = (d1, c)" by (cases "cart_read d uid")
  from cart_read_positive [OF assms(1), of uid] r
  have p1: "quantities_positive d1" and p2: "list_all (\<lambda>it. 1 \<le> quantity it) (cart_items c)"
    by simp_all
  from assms(2) [OF p2] p1 r show ?thesis
    by (simp add: cart_update_def quantities_positive_def list_all_replace_first)
qed

lemma cart_update_found:
  "cart_findOne_user (carts (cart_update d uid f)) uid
   = Some ((snd (cart_read d uid))\<lparr>cart_items := f (cart_items (snd (cart_read d uid)))\<rparr>)"
proof -
  obtain d1 c where r: "cart_read d uid = (d1, c)" by (cases "cart_read d uid")
  from cart_read_found [of d uid] r
  have f: "find (\<lambda>x. cart_user x = uid) (carts d1) = Some c" and u: "cart_user c = uid"
    by (simp_all add: cart_findOne_user_def)
  from find_replace_first [OF f, of "c\<lparr>cart_items := f (cart_items c)\<rparr>"] u r
  show ?thesis by (simp add: cart_update_def cart_findOne_user_def)
qed

lemma add_entry_positive:
  "1 \<le> q \<Longrightarrow> list_all (\<lambda>it. 1 \<le> quantity it) its
   \<Longrightarrow> list_all (\<lambda>it. 1 \<le> quantity it) (add_entry p q its)"
  by (induction its) auto

lemma post_order_carts:
  "carts (fst (post_order e d u body)) = carts d
   \<or> (\<exists>cart. carts (fst (post_order e d u body))
         = replace_first (\<lambda>c. cart_user c = cart_user cart) (cart\<lparr>cart_items := []\<rparr>) (carts d))"
proof (cases rule: post_order_outcome [of e d u body])
  case (created cart its amt)
  then show ?thesis by auto
qed simp_all

lemma post_order_positive:
  assumes "quantities_positive d"
  shows "quantities_positive (fst (post_order e d u body))"
  using post_order_carts [of e d u body] assms
  by (auto simp: quantities_positive_def list_all_replace_first)

text \<open>
  Claim C8. Every operation on the cart keeps every stored quantity at 1 or more:
  \<open>addItem\<close> (which accepts every quantity of at least 1), \<open>updateItem\<close>,
  \<open>removeItem\<close>, \<open>clear\<close>, \<open>read\<close>, and the checkout of the order route. After
  \<open>updateItem\<close> with a quantity of 0 or less the user's cart has no entry for the
  product.
\<close>

theorem cart_quantities_positive:
  assumes "quantities_positive d"
  shows "(\<forall>d'. addItem d uid p q = Some d' \<longrightarrow> quantities_positive d')
       \<and> (1 \<le> q \<longrightarrow> addItem d uid p q \<noteq> None)
       \<and> quantities_positive (updateItem d uid p q)
       \<and> quantities_positive (removeItem d uid p)
       \<and> quantities_positive (clear d uid)
       \<and> quantities_positive (fst (cart_read d uid))
       \<and> quantities_positive (fst (post_order e d u body))
       \<and> (q \<le> 0 \<longrightarrow>
            (\<exists>c. cart_findOne_user (carts (updateItem d uid p q)) uid = Some c
                 \<and> p \<notin> ci_product ` set (cart_items c)))"
proof (intro conjI allI impI)
  fix d'
  assume "addItem d uid p q = Some d'"
  then have q: "1 \<le> q" and d': "d' = cart_update d uid (add_entry p q)"
    by (auto simp: addItem_def split: if_splits)
  show "quantities_positive d'"
    unfolding d' using assms q by (intro cart_update_positive add_entry_positive)
next
  assume "1 \<le> q"
  then show "addItem d uid p q \<noteq> None" by (simp add: addItem_def)
next
  show "quantities_positive (updateItem d uid p q)"
    unfolding updateItem_def using assms
    by (intro cart_update_positive) (auto simp: list_all_iff)
next
  show "quantities_positive (removeItem d uid p)"
    unfolding removeItem_def using assms
    by (intro cart_update_positive) (auto simp: list_all_iff)
next
  show "quantities_positive (clear d uid)"
    unfolding clear_def using assms
    by (intro cart_update_positive) simp_all
next
  show "quantities_positive (fst (cart_read d uid))"
    using cart_read_positive [OF assms] by simp
next
  show "quantities_positive (fst (post_order e d u body))"
    using assms by (rule post_order_positive)
next
  assume "q \<le> 0"
  then show "\<exists>c. cart_findOne_user (carts (updateItem d uid p q)) uid = Some c
                 \<and> p \<notin> ci_product ` set (cart_items c)"
    by (auto simp: updateItem_def cart_update_found)
qed

theorem cart_quantities_positive_witness:
  "quantities_positive db0
   \<and> quantities_positive (updateItem db0 1 10 0)
   \<and> cart_findOne_user (carts (updateItem db0 1 10 0)) 1
       = Some \<lparr>cart_user = 1, cart_items = [\<lparr>ci_product = 11, quantity = 1\<rparr>]\<rparr>
   \<and> addItem db0 1 10 0 = None
   \<and> addItem db0 2 10 3 = Some (cart_update db0 2 (add_entry 10 3))
   \<and> quantities_positive (cart_update db0 2 (add_entry 10 3))
   \<and> cart_findOne_user (carts (cart_update db0 2 (add_entry 10 3))) 2
       = Some \<lparr>cart_user = 2, cart_items = [\<lparr>ci_product = 10, quantity = 3\<rparr>]\<rparr>
   \<and> cart_findOne_user (carts (updateItem db0 1 10 5)) 1
       = Some \<lparr>cart_user = 1,
               cart_items = [\<lparr>ci_product = 10, quantity = 5\<rparr>, \<lparr>ci_product = 11, quantity = 1\<rparr>]\<rparr>"
proof -
  have a: "quantities_positive db0" by code_simp
  have b: "cart_findOne_user (carts (updateItem db0 1 10 0)) 1
       = Some \<lparr>cart_user = 1, cart_items = [\<lparr>ci_product = 11, quantity = 1\<rparr>]\<rparr>"
    by code_simp
  have c: "addItem db0 1 10 0 = None" by code_simp
  have d: "addItem db0 2 10 3 = Some (cart_update db0 2 (add_entry 10 3))"
    by (simp add: addItem_def)
  have f: "cart_findOne_user (carts (cart_update db0 2 (add_entry 10 3))) 2
       = Some \<lparr>cart_user = 2, cart_items = [\<lparr>ci_product = 10, quantity = 3\<rparr>]\<rparr>"
    by code_simp
  have g: "cart_findOne_user (carts (updateItem db0 1 10 5)) 1
       = Some \<lparr>cart_user = 1,
               cart_items = [\<lparr>ci_product = 10, quantity = 5\<rparr>, \<lparr>ci_product = 11, quantity = 1\<rparr>]\<rparr>"
    by code_simp
  from cart_quantities_positive [OF a, of 1 10 0]
  have r1: "quantities_positive (updateItem db0 1 10 0)" by blast
  from cart_quantities_positive [OF a, of 2 10 3] d
  have r2: "quantities_positive (cart_update db0 2 (add_entry 10 3))" by blast
  from a b c d f g r1 r2 show ?thesis by blast
qed

end
